theory Spec2Isabelle
  imports Complex_Main
begin

section \<open>Data model\<close>

text \<open>
  A coordinate reference system is identified by its authority code (\<open>''EPSG:4326''\<close>),
  a file by its path. A Python float is modelled by the real number it denotes and a
  decimal literal by the number written; the product of two floats is rounded by the
  interpreter and is a parameter of the model (\<open>float_mul\<close> below), not the product of
  the reals.
\<close>

type_synonym crs = string
type_synonym path = string

text \<open>The exceptions the code raises or lets through, with their message.\<close>

datatype error =
  ValueError string | IOError string | AttributeError string | KeyError string
  | TypeError string | CRSError string | OverflowError string

text \<open>
  A GeoDataFrame of \<open>buffer_processor.py\<close>: its rows in order and its CRS (\<open>None\<close>
  when unset). A row carries its attribute columns, which the module never looks at,
  and one geometry, \<open>None\<close> for a null geometry.
\<close>

record ('a, 'g) row =
  attrs :: 'a
  geometry :: "'g option"

record ('a, 'g) gdf =
  rows :: "('a, 'g) row list"
  crs :: "crs option"

text \<open>
  The geometry and projection libraries (shapely, pyproj) are not part of the
  repository: their operations on one geometry are parameters of the model.
  \<open>transform E src tgt g\<close> is \<open>g\<close> reprojected from \<open>src\<close> to \<open>tgt\<close>.
\<close>

record 'g engine =
  geom_type :: "'g \<Rightarrow> string"
  is_valid :: "'g \<Rightarrow> bool"
  is_empty :: "'g \<Rightarrow> bool"
  buffer :: "'g \<Rightarrow> real \<Rightarrow> 'g"
  difference :: "'g \<Rightarrow> 'g \<Rightarrow> 'g"
  intersects :: "'g \<Rightarrow> 'g \<Rightarrow> bool"
  transform :: "crs \<Rightarrow> crs \<Rightarrow> 'g \<Rightarrow> 'g"
  is_geographic :: "crs \<Rightarrow> bool"

text \<open>
  What \<open>buffer_processor.py\<close> imports from modules of the repository that are not
  under src/: the constants and the driver table of \<open>gis_tool.config\<close>
  (\<open>get_driver_from_extension\<close> is \<open>None\<close> where the lookup raises),
  \<open>fix_geometry\<close> of \<open>gis_tool.geometry_cleaning\<close>, \<open>clean_geodataframe\<close> of
  \<open>gis_tool.utils\<close>, and the metric projection that \<open>ensure_projected_crs\<close>
  chooses for a dataset. They are parameters of the model, and so is \<open>float_mul\<close>, the
  interpreter's product of two floats.
\<close>

record ('a, 'g) deps =
  DEFAULT_BUFFER_DISTANCE_FT :: real
  DEFAULT_CRS :: crs
  GEOGRAPHIC_CRS :: crs
  BUFFER_LAYER_CRS :: crs
  get_driver_from_extension :: "path \<Rightarrow> string option"
  fix_geometry :: "'g option \<Rightarrow> 'g option"
  clean_geodataframe :: "('a, 'g) gdf \<Rightarrow> ('a, 'g) gdf"
  metric_crs :: "('a, 'g) gdf \<Rightarrow> crs"
  float_mul :: "real \<Rightarrow> real \<Rightarrow> real"

text \<open>
  The file system: the dataset stored under each path, the paths that cannot be
  written, and the log of the writes performed (path and driver), oldest first.
\<close>

record ('a, 'g) fs =
  files :: "path \<Rightarrow> ('a, 'g) gdf option"
  unwritable :: "path \<Rightarrow> bool"
  write_log :: "(path \<times> string) list"

definition read_file :: "('a, 'g) fs \<Rightarrow> path \<Rightarrow> error + ('a, 'g) gdf" where
  "read_file fs p = (case files fs p of None \<Rightarrow> Inl (IOError p) | Some df \<Rightarrow> Inr df)"

definition to_file :: "('a, 'g) fs \<Rightarrow> path \<Rightarrow> string \<Rightarrow> ('a, 'g) gdf \<Rightarrow> error + ('a, 'g) fs" where
  "to_file fs p driver df =
     (if unwritable fs p then Inl (IOError p)
      else Inr (fs\<lparr>files := (files fs)(p := Some df), write_log := write_log fs @ [(p, driver)]\<rparr>))"

subsection \<open>The pandas and geopandas operations the code uses\<close>

text \<open>\<open>df.empty\<close>: no rows.\<close>

definition gdf_empty :: "('a, 'g) gdf \<Rightarrow> bool" where
  "gdf_empty df = (rows df = [])"

text \<open>
  The per-row series \<open>geom_type\<close>, \<open>notnull()\<close>, \<open>is_valid\<close> and \<open>is_empty\<close>. On a
  null geometry \<open>geom_type\<close> is \<open>None\<close> and the two predicates are \<open>False\<close>.
\<close>

definition geom_type_of :: "'g engine \<Rightarrow> ('a, 'g) row \<Rightarrow> string option" where
  "geom_type_of E r = map_option (geom_type E) (geometry r)"

definition notnull :: "('a, 'g) row \<Rightarrow> bool" where
  "notnull r = (geometry r \<noteq> None)"

definition row_is_valid :: "'g engine \<Rightarrow> ('a, 'g) row \<Rightarrow> bool" where
  "row_is_valid E r = (case geometry r of None \<Rightarrow> False | Some g \<Rightarrow> is_valid E g)"

definition row_is_empty :: "'g engine \<Rightarrow> ('a, 'g) row \<Rightarrow> bool" where
  "row_is_empty E r = (case geometry r of None \<Rightarrow> False | Some g \<Rightarrow> is_empty E g)"

text \<open>\<open>series.isin(names)\<close> on one value; \<open>None\<close> is in no list of names.\<close>

definition isin :: "string option \<Rightarrow> string list \<Rightarrow> bool" where
  "isin v names = (case v of None \<Rightarrow> False | Some s \<Rightarrow> s \<in> set names)"

text \<open>\<open>series.unique()\<close>: the distinct values in order of first appearance.\<close>

definition unique :: "'b list \<Rightarrow> 'b list" where
  "unique xs = rev (remdups (rev xs))"

text \<open>\<open>df[mask]\<close>, with the mask given as a predicate on rows.\<close>

definition select :: "(('a, 'g) row \<Rightarrow> bool) \<Rightarrow> ('a, 'g) gdf \<Rightarrow> ('a, 'g) gdf" where
  "select P df = df\<lparr>rows := filter P (rows df)\<rparr>"

text \<open>\<open>df['geometry'] = df.geometry.apply(f)\<close>.\<close>

definition apply_geometry :: "('g option \<Rightarrow> 'g option) \<Rightarrow> ('a, 'g) gdf \<Rightarrow> ('a, 'g) gdf" where
  "apply_geometry f df = df\<lparr>rows := map (\<lambda>r. r\<lparr>geometry := f (geometry r)\<rparr>) (rows df)\<rparr>"

text \<open>
  \<open>df['geometry'] = values\<close> for a list of values, by position. The code only assigns
  lists computed from the rows of \<open>df\<close>, so the lengths agree.
\<close>

definition assign_geometry :: "('a, 'g) gdf \<Rightarrow> 'g option list \<Rightarrow> ('a, 'g) gdf" where
  "assign_geometry df gs = df\<lparr>rows := map (\<lambda>(r, g). r\<lparr>geometry := g\<rparr>) (zip (rows df) gs)\<rparr>"

text \<open>\<open>df.set_crs(c)\<close> on a dataset without CRS, or with \<open>allow_override=True\<close>.\<close>

definition set_crs :: "crs \<Rightarrow> ('a, 'g) gdf \<Rightarrow> ('a, 'g) gdf" where
  "set_crs c df = df\<lparr>crs := Some c\<rparr>"

text \<open>
  \<open>df.to_crs(tgt)\<close>: raises on a dataset without CRS, returns the dataset as it is when
  it is in \<open>tgt\<close> already, and transforms every non-null geometry otherwise.
\<close>

definition reproject :: "'g engine \<Rightarrow> crs \<Rightarrow> crs \<Rightarrow> ('a, 'g) gdf \<Rightarrow> ('a, 'g) gdf" where
  "reproject E src tgt df =
     (if src = tgt then df
      else df\<lparr>rows := map (\<lambda>r. r\<lparr>geometry := map_option (transform E src tgt) (geometry r)\<rparr>) (rows df),
              crs := Some tgt\<rparr>)"

definition to_crs :: "'g engine \<Rightarrow> crs \<Rightarrow> ('a, 'g) gdf \<Rightarrow> error + ('a, 'g) gdf" where
  "to_crs E tgt df =
     (case crs df of
        None \<Rightarrow> Inl (ValueError ''Cannot transform naive geometries. Please set a crs on the object first.'')
      | Some src \<Rightarrow> Inr (reproject E src tgt df))"

text \<open>\<open>pd.concat(frames, ignore_index=True)\<close>: raises on an empty list of frames.\<close>

definition pd_concat :: "('a, 'g) gdf list \<Rightarrow> error + ('a, 'g) row list" where
  "pd_concat frames =
     (if frames = [] then Inl (ValueError ''No objects to concatenate'')
      else Inr (concat (map rows frames)))"

section \<open>Helpers of the repository that are not under src/\<close>

text \<open>
  Modelled from the spec: \<open>convert_ft_to_m\<close> (\<open>gis_tool.utils\<close>) is missing from src/.
  Spec 4.3: the distance in feet is converted to meters using the exact factor 0.3048:
  the float product of the distance and the constant 0.3048.
\<close>

definition convert_ft_to_m :: "('a, 'g) deps \<Rightarrow> real \<Rightarrow> real" where
  "convert_ft_to_m D feet = float_mul D feet 0.3048"

text \<open>
  Modelled from the spec: \<open>log_and_filter_invalid_geometries\<close> (\<open>gis_tool.buffer_utils\<close>)
  is missing from src/. Spec 4.2 (b), (d): it drops null geometries and every geometry
  that is invalid or empty; the label only serves the log.
\<close>

definition log_and_filter_invalid_geometries :: "'g engine \<Rightarrow> ('a, 'g) gdf \<Rightarrow> ('a, 'g) gdf" where
  "log_and_filter_invalid_geometries E df =
     select (\<lambda>r. notnull r \<and> row_is_valid E r \<and> \<not> row_is_empty E r) df"

text \<open>
  Modelled from the spec: \<open>validate_and_reproject_crs\<close> (\<open>gis_tool.spatial_utils\<close>) is
  missing from src/. Spec 4.1: a dataset without CRS is assigned the configured
  geographic default; when a target CRS is given and differs from the current one the
  dataset is reprojected; the output CRS is always set.
\<close>

definition validate_and_reproject_crs ::
  "'g engine \<Rightarrow> ('a, 'g) deps \<Rightarrow> ('a, 'g) gdf \<Rightarrow> crs option \<Rightarrow> ('a, 'g) gdf" where
  "validate_and_reproject_crs E D df target_crs =
     (let cur = (case crs df of None \<Rightarrow> GEOGRAPHIC_CRS D | Some c \<Rightarrow> c);
          df = set_crs cur df
      in case target_crs of None \<Rightarrow> df | Some t \<Rightarrow> reproject E cur t df)"

text \<open>
  Modelled from the spec: \<open>ensure_projected_crs\<close> (\<open>gis_tool.spatial_utils\<close>) is missing
  from src/. Spec 4.1: if the current CRS is geographic, the dataset is reprojected to a
  metric projection. The code under src/ calls it on datasets whose CRS is set; a
  dataset without CRS is returned as it is.
\<close>

definition ensure_projected_crs ::
  "'g engine \<Rightarrow> ('a, 'g) deps \<Rightarrow> ('a, 'g) gdf \<Rightarrow> ('a, 'g) gdf" where
  "ensure_projected_crs E D df =
     (case crs df of
        None \<Rightarrow> df
      | Some c \<Rightarrow> if is_geographic E c then reproject E c (metric_crs D df) df else df)"

text \<open>
  Modelled from the spec: \<open>buffer_intersects_gas_lines\<close> (\<open>gis_tool.spatial_utils\<close>) is
  missing from src/. Spec 4.5: the geometry spatially intersects at least one geometry
  of the dataset it is given.
\<close>

definition buffer_intersects_gas_lines :: "'g engine \<Rightarrow> 'g option \<Rightarrow> ('a, 'g) gdf \<Rightarrow> bool" where
  "buffer_intersects_gas_lines E buf_geom df =
     (case buf_geom of
        None \<Rightarrow> False
      | Some b \<Rightarrow> list_ex (\<lambda>r. case geometry r of None \<Rightarrow> False | Some g \<Rightarrow> intersects E b g) (rows df))"

text \<open>
  Modelled from the spec: \<open>subtract_park_from_geom\<close> (\<open>gis_tool.buffer_utils\<close>) is
  missing from src/. Spec 4.4 (4): the difference is taken against each exclusion
  geometry in turn, accumulating the remainder.
\<close>

definition subtract_park_from_geom :: "'g engine \<Rightarrow> 'g option \<Rightarrow> 'g option list \<Rightarrow> 'g option" where
  "subtract_park_from_geom E geom parks_geoms =
     map_option
       (\<lambda>g. foldl (\<lambda>acc park. case park of None \<Rightarrow> acc | Some p \<Rightarrow> difference E acc p) g parks_geoms)
       geom"

text \<open>
  Modelled from the spec: \<open>parallel_process\<close> (\<open>gis_tool.parallel_utils\<close>) and the two
  task functions \<open>buffer_geometry_helper\<close> and \<open>subtract_park_from_geom_helper\<close>
  (\<open>gis_tool.buffer_utils\<close>) are missing from src/. Spec 5: a task is a pure function of
  one geometry and its auxiliary parameters, and the results are recombined in the
  order of submission.
\<close>

definition parallel_process :: "('x \<Rightarrow> 'y) \<Rightarrow> 'x list \<Rightarrow> 'y list" where
  "parallel_process task args = map task args"

definition buffer_geometry_helper :: "'g engine \<Rightarrow> 'g option \<times> real \<Rightarrow> 'g option" where
  "buffer_geometry_helper E arg = (case arg of (geom, d) \<Rightarrow> map_option (\<lambda>g. buffer E g d) geom)"

definition subtract_park_from_geom_helper ::
  "'g engine \<Rightarrow> 'g option \<times> 'g option list \<Rightarrow> 'g option" where
  "subtract_park_from_geom_helper E arg =
     (case arg of (geom, parks_geoms) \<Rightarrow> subtract_park_from_geom E geom parks_geoms)"

section \<open>buffer\_processor.py\<close>

subsection \<open>subtract\_parks\_from\_buffer\<close>

definition allowed_park_types :: "string list" where
  "allowed_park_types = [''Polygon'', ''MultiPolygon'']"

text \<open>Lines 162 to 174: the exclusion geometries that take part in the subtraction.\<close>

definition prepare_parks ::
  "'g engine \<Rightarrow> ('a, 'g) deps \<Rightarrow> ('a, 'g) gdf \<Rightarrow> ('a, 'g) gdf" where
  "prepare_parks E D parks_gdf =
     (let parks_gdf =
            (if \<not> list_all (\<lambda>r. isin (geom_type_of E r) allowed_park_types) (rows parks_gdf)
             then select (\<lambda>r. isin (geom_type_of E r) allowed_park_types) parks_gdf
             else parks_gdf);
          parks_gdf = select notnull parks_gdf;
          parks_gdf = apply_geometry (fix_geometry D) parks_gdf
      in log_and_filter_invalid_geometries E parks_gdf)"

definition subtract_parks_from_buffer ::
  "'g engine \<Rightarrow> ('a, 'g) deps \<Rightarrow> ('a, 'g) fs \<Rightarrow> ('a, 'g) gdf \<Rightarrow> path option \<Rightarrow> bool
     \<Rightarrow> error + ('a, 'g) gdf" where
  "subtract_parks_from_buffer E D fs buffer_gdf parks_path use_multiprocessing =
     (case parks_path of
        None \<Rightarrow> Inr buffer_gdf
      | Some p \<Rightarrow>
          (case read_file fs p of
             Inl e \<Rightarrow> Inl e
           | Inr parks_gdf \<Rightarrow>
               (let parks_gdf = validate_and_reproject_crs E D parks_gdf (crs buffer_gdf);
                    parks_gdf = prepare_parks E D parks_gdf;
                    buffer_gdf = select notnull buffer_gdf;
                    buffer_gdf = apply_geometry (fix_geometry D) buffer_gdf;
                    buffer_gdf = log_and_filter_invalid_geometries E buffer_gdf;
                    parks_geoms = map geometry (rows parks_gdf);
                    buffer_gdf =
                      (if use_multiprocessing
                       then assign_geometry buffer_gdf
                              (parallel_process (subtract_park_from_geom_helper E)
                                 (map (\<lambda>r. (geometry r, parks_geoms)) (rows buffer_gdf)))
                       else apply_geometry (\<lambda>geom. subtract_park_from_geom E geom parks_geoms) buffer_gdf);
                    buffer_gdf = apply_geometry (fix_geometry D) buffer_gdf;
                    buffer_gdf = select (\<lambda>r. row_is_valid E r \<and> \<not> row_is_empty E r) buffer_gdf
                in Inr buffer_gdf)))"

subsection \<open>create\_buffer\_with\_geopandas\<close>

definition allowed_geom_types :: "string list" where
  "allowed_geom_types = [''Point'', ''LineString'', ''MultiLineString'', ''MultiPoint'']"

text \<open>Lines 52 to 54: the distance in meters, from the caller's feet or the default.\<close>

definition buffer_distance_m :: "('a, 'g) deps \<Rightarrow> real option \<Rightarrow> real" where
  "buffer_distance_m D buffer_distance_ft =
     (let buffer_distance_ft =
            (case buffer_distance_ft of None \<Rightarrow> DEFAULT_BUFFER_DISTANCE_FT D | Some d \<Rightarrow> d)
      in convert_ft_to_m D buffer_distance_ft)"

text \<open>Python's truth value of an optional string: \<open>None\<close> and the empty string are false.\<close>

definition truthy :: "string option \<Rightarrow> bool" where
  "truthy s = (case s of None \<Rightarrow> False | Some t \<Rightarrow> t \<noteq> [])"

text \<open>
  The function rebinds the one variable \<open>gas_lines_gdf\<close> at every stage, and so does
  the model: inside a \<open>let\<close>, a later binding of the name hides the earlier one.
\<close>

definition create_buffer_with_geopandas ::
  "'g engine \<Rightarrow> ('a, 'g) deps \<Rightarrow> ('a, 'g) fs \<Rightarrow> path \<Rightarrow> real option \<Rightarrow> path option \<Rightarrow> bool
     \<Rightarrow> error + ('a, 'g) gdf" where
  "create_buffer_with_geopandas E D fs input_gas_lines_path buffer_distance_ft parks_path
       use_multiprocessing =
     (let buffer_distance_m = buffer_distance_m D buffer_distance_ft in
      case read_file fs input_gas_lines_path of
        Inl e \<Rightarrow> Inl e
      | Inr gas_lines_gdf \<Rightarrow>
          (let gas_lines_gdf =
                 (if crs gas_lines_gdf = None then set_crs (DEFAULT_CRS D) gas_lines_gdf
                  else gas_lines_gdf);
               gas_lines_gdf = ensure_projected_crs E D gas_lines_gdf;
               gas_lines_gdf =
                 (if \<not> list_all (\<lambda>r. isin (geom_type_of E r) allowed_geom_types) (rows gas_lines_gdf)
                  then select (\<lambda>r. isin (geom_type_of E r) allowed_geom_types) gas_lines_gdf
                  else gas_lines_gdf);
               gas_lines_gdf = log_and_filter_invalid_geometries E gas_lines_gdf
           in if gdf_empty gas_lines_gdf then Inr gas_lines_gdf
              else
                (let gas_lines_gdf =
                       (if use_multiprocessing
                        then assign_geometry gas_lines_gdf
                               (parallel_process (buffer_geometry_helper E)
                                  (map (\<lambda>r. (geometry r, buffer_distance_m)) (rows gas_lines_gdf)))
                        else apply_geometry (map_option (\<lambda>g. buffer E g buffer_distance_m)) gas_lines_gdf);
                     gas_lines_gdf = apply_geometry (fix_geometry D) gas_lines_gdf;
                     gas_lines_gdf = log_and_filter_invalid_geometries E gas_lines_gdf
                 in if gdf_empty gas_lines_gdf then Inr gas_lines_gdf
                    else
                      (case (if truthy parks_path
                             then subtract_parks_from_buffer E D fs gas_lines_gdf parks_path False
                             else Inr gas_lines_gdf) of
                         Inl e \<Rightarrow> Inl e
                       | Inr gas_lines_gdf \<Rightarrow>
                           (let gas_lines_gdf =
                                  select (\<lambda>r. buffer_intersects_gas_lines E (geometry r) gas_lines_gdf)
                                    gas_lines_gdf;
                                gas_lines_gdf = clean_geodataframe D gas_lines_gdf;
                                gas_lines_gdf =
                                  select (\<lambda>r. row_is_valid E r \<and> \<not> row_is_empty E r) gas_lines_gdf
                            in Inr gas_lines_gdf)))))"

subsection \<open>merge\_buffers\_into\_planning\_file\<close>

definition polygon_types :: "string list" where
  "polygon_types = [''Polygon'', ''MultiPolygon'']"

text \<open>\<open>df.to_crs(c)\<close> where \<open>c\<close> is read from another dataset and may be unset.\<close>

definition to_crs_opt :: "'g engine \<Rightarrow> crs option \<Rightarrow> ('a, 'g) gdf \<Rightarrow> error + ('a, 'g) gdf" where
  "to_crs_opt E tgt df =
     (case tgt of
        None \<Rightarrow> Inl (ValueError ''Must pass either crs or epsg.'')
      | Some t \<Rightarrow> to_crs E t df)"

text \<open>\<open>GeoSeries(values, crs=src).to_crs(tgt)\<close>.\<close>

definition series_to_crs :: "'g engine \<Rightarrow> crs \<Rightarrow> crs \<Rightarrow> 'g option list \<Rightarrow> 'g option list" where
  "series_to_crs E src tgt gs = (if src = tgt then gs else map (map_option (transform E src tgt)) gs)"

text \<open>
  Lines 264 to 296: default CRS for a layer without one, the buffer layer brought into
  the planning layer's CRS, both layers projected. In line 273 the second test reads
  \<open>buffer_gdf.to_string()\<close>, the printed table, which is never the empty string.
\<close>

definition merge_resolve_crs ::
  "'g engine \<Rightarrow> ('a, 'g) deps \<Rightarrow> ('a, 'g) gdf \<Rightarrow> ('a, 'g) gdf
     \<Rightarrow> error + (('a, 'g) gdf \<times> ('a, 'g) gdf)" where
  "merge_resolve_crs E D buffer_gdf future_dev_gdf =
     (let future_dev_gdf =
            (if crs future_dev_gdf = None \<or> crs future_dev_gdf = Some []
             then set_crs (GEOGRAPHIC_CRS D) future_dev_gdf else future_dev_gdf);
          buffer_gdf =
            (if crs buffer_gdf = None then set_crs (BUFFER_LAYER_CRS D) buffer_gdf else buffer_gdf);
          buffer_gdf = validate_and_reproject_crs E D buffer_gdf (crs future_dev_gdf);
          buffer_gdf = ensure_projected_crs E D buffer_gdf;
          future_dev_gdf = ensure_projected_crs E D future_dev_gdf
      in if crs buffer_gdf \<noteq> crs future_dev_gdf
         then (case to_crs_opt E (crs future_dev_gdf) buffer_gdf of
                 Inl e \<Rightarrow> Inl e
               | Inr buffer_gdf \<Rightarrow> Inr (buffer_gdf, future_dev_gdf))
         else Inr (buffer_gdf, future_dev_gdf))"

text \<open>
  Lines 303 to 327: a non-empty planning layer must have one geometry kind; points and
  lines are turned into polygons by buffering in EPSG:3857.
\<close>

definition harmonize_planning ::
  "'g engine \<Rightarrow> real \<Rightarrow> ('a, 'g) gdf \<Rightarrow> error + ('a, 'g) gdf" where
  "harmonize_planning E point_buffer_distance future_dev_gdf =
     (if \<not> gdf_empty future_dev_gdf
      then
        (let unique_future_geom_types = unique (map (geom_type_of E) (rows future_dev_gdf)) in
         case unique_future_geom_types of
           [future_geom_type] \<Rightarrow>
             (if \<not> isin future_geom_type polygon_types
              then
                (if isin future_geom_type [''Point'', ''LineString'']
                 then
                   (case crs future_dev_gdf of
                      None \<Rightarrow> to_crs E ''EPSG:3857'' future_dev_gdf
                    | Some original_crs \<Rightarrow>
                        (case to_crs E ''EPSG:3857'' future_dev_gdf of
                           Inl e \<Rightarrow> Inl e
                         | Inr projected \<Rightarrow>
                             (let buffered =
                                    map (\<lambda>r. map_option
                                               (\<lambda>g. buffer E (buffer E g point_buffer_distance) 0)
                                               (geometry r))
                                      (rows projected)
                              in Inr (assign_geometry future_dev_gdf
                                        (series_to_crs E ''EPSG:3857'' original_crs buffered)))))
                 else Inl (ValueError ''Unsupported Future Development geometry type for conversion.''))
              else Inr future_dev_gdf)
         | _ \<Rightarrow> Inl (ValueError ''Future Development shapefile has mixed geometry types''))
      else Inr future_dev_gdf)"

text \<open>Lines 329 to 342, for one layer: repair, then drop null, invalid and empty geometries.\<close>

definition clean_layer :: "'g engine \<Rightarrow> ('a, 'g) deps \<Rightarrow> ('a, 'g) gdf \<Rightarrow> ('a, 'g) gdf" where
  "clean_layer E D df =
     select (\<lambda>r. notnull r \<and> row_is_valid E r \<and> \<not> row_is_empty E r)
       (apply_geometry (fix_geometry D) df)"

text \<open>Lines 351 and 352.\<close>

definition resolve_output_crs ::
  "crs option \<Rightarrow> ('a, 'g) gdf \<Rightarrow> ('a, 'g) gdf \<Rightarrow> crs option" where
  "resolve_output_crs output_crs buffer_gdf future_dev_gdf =
     (case output_crs of
        None \<Rightarrow> (if \<not> gdf_empty buffer_gdf then crs buffer_gdf else crs future_dev_gdf)
      | Some c \<Rightarrow> Some c)"

text \<open>
  Lines 344 to 367, on the two cleaned layers: concatenate, reproject, and write unless
  the merged dataset is empty. The result is paired with the file system it leaves.
\<close>

definition merge_and_write ::
  "'g engine \<Rightarrow> ('a, 'g) deps \<Rightarrow> ('a, 'g) fs \<Rightarrow> path \<Rightarrow> crs option \<Rightarrow> ('a, 'g) gdf \<Rightarrow> ('a, 'g) gdf
     \<Rightarrow> (error + ('a, 'g) gdf) \<times> ('a, 'g) fs" where
  "merge_and_write E D fs future_development_feature_class output_crs future_dev_gdf buffer_gdf =
     (let frames = filter (\<lambda>df. \<not> gdf_empty df) [future_dev_gdf, buffer_gdf] in
      case pd_concat frames of
        Inl e \<Rightarrow> (Inl e, fs)
      | Inr merged_rows \<Rightarrow>
          (let merged_gdf = \<lparr>rows = merged_rows, crs = crs future_dev_gdf\<rparr>;
               output_crs = resolve_output_crs output_crs buffer_gdf future_dev_gdf
           in case to_crs_opt E output_crs merged_gdf of
                Inl e \<Rightarrow> (Inl e, fs)
              | Inr merged_gdf \<Rightarrow>
                  (if gdf_empty merged_gdf
                   then (Inr \<lparr>rows = [], crs = crs future_dev_gdf\<rparr>, fs)
                   else
                     (case get_driver_from_extension D future_development_feature_class of
                        None \<Rightarrow> (Inl (ValueError ''Unsupported file extension''), fs)
                      | Some driver \<Rightarrow>
                          (case to_file fs future_development_feature_class driver merged_gdf of
                             Inl e \<Rightarrow> (Inl e, fs)
                           | Inr fs' \<Rightarrow> (Inr merged_gdf, fs'))))))"

definition merge_buffers_into_planning_file ::
  "'g engine \<Rightarrow> ('a, 'g) deps \<Rightarrow> ('a, 'g) fs \<Rightarrow> path \<Rightarrow> path \<Rightarrow> real \<Rightarrow> crs option
     \<Rightarrow> (error + ('a, 'g) gdf) \<times> ('a, 'g) fs" where
  "merge_buffers_into_planning_file E D fs unique_output_buffer future_development_feature_class
       point_buffer_distance output_crs =
     (case read_file fs unique_output_buffer of
        Inl e \<Rightarrow> (Inl e, fs)
      | Inr buffer_gdf \<Rightarrow>
          (case read_file fs future_development_feature_class of
             Inl e \<Rightarrow> (Inl e, fs)
           | Inr future_dev_gdf \<Rightarrow>
               (if gdf_empty buffer_gdf then (Inr future_dev_gdf, fs)
                else
                  (case merge_resolve_crs E D buffer_gdf future_dev_gdf of
                     Inl e \<Rightarrow> (Inl e, fs)
                   | Inr (buffer_gdf, future_dev_gdf) \<Rightarrow>
                       (if \<not> list_all (\<lambda>r. isin (geom_type_of E r) polygon_types) (rows buffer_gdf)
                        then (Inl (ValueError
                                ''Buffer shapefile must contain only polygon or multipolygon geometries.''),
                              fs)
                        else
                          (case harmonize_planning E point_buffer_distance future_dev_gdf of
                             Inl e \<Rightarrow> (Inl e, fs)
                           | Inr future_dev_gdf \<Rightarrow>
                               merge_and_write E D fs future_development_feature_class output_crs
                                 (clean_layer E D future_dev_gdf) (clean_layer E D buffer_gdf)))))))"

section \<open>data\_loader.py\<close>

subsection \<open>Tables and strings\<close>

text \<open>
  A value in a table: a missing value (\<open>None\<close> and the float \<open>nan\<close> alike), the
  missing timestamp, a string, a float, a timestamp (nanoseconds since the epoch) or a
  geometry. A string is a list of characters of HOL, whose code points are below 256:
  the model covers the texts of Latin-1.
\<close>

datatype 'g cell = NaN | NaT | Str string | Num real | Timestamp int | Geom 'g

text \<open>
  A GeoDataFrame with named columns: the column names in order, the rows, each a list
  of values in the order of the columns, and the CRS.
\<close>

record 'g frame =
  columns :: "string list"
  cells :: "'g cell list list"
  frame_crs :: "crs option"

text \<open>
  The library functions the module calls, as parameters. \<open>to_datetime s fmt\<close> is
  \<open>pd.to_datetime(s, format=fmt)\<close> and \<open>dateutil_parse s\<close> is
  \<open>pd.to_datetime(parse(s, fuzzy=False))\<close>: each returns a value or raises an
  exception. \<open>float_of\<close> is Python's \<open>float\<close> on a string (\<open>None\<close> where it raises
  \<open>ValueError\<close>), \<open>astype\<close> the cast of a value to the dtype of a column of a table
  (\<open>None\<close> where it raises), \<open>Point\<close> is shapely's, \<open>str_lower\<close> is \<open>str.lower()\<close>,
  and \<open>crs_valid\<close> tells the CRS strings that pyproj accepts from those for which
  it raises \<open>CRSError\<close>.
\<close>

record 'g lib =
  to_datetime :: "string \<Rightarrow> string \<Rightarrow> error + 'g cell"
  dateutil_parse :: "string \<Rightarrow> error + 'g cell"
  float_of :: "string \<Rightarrow> real option"
  astype :: "'g frame \<Rightarrow> string \<Rightarrow> 'g cell \<Rightarrow> 'g cell option"
  Point :: "real \<Rightarrow> real \<Rightarrow> 'g"
  str_lower :: "string \<Rightarrow> string"
  crs_valid :: "crs \<Rightarrow> bool"

text \<open>\<open>str.split()\<close>: the maximal runs of characters that are not white space.\<close>

definition is_space :: "char \<Rightarrow> bool" where
  "is_space c = ((of_char c :: nat) \<in> {9, 10, 11, 12, 13, 28, 29, 30, 31, 32, 133, 160})"

fun words_from :: "string \<Rightarrow> string \<Rightarrow> string list" where
  "words_from cur [] = (if cur = [] then [] else [rev cur])"
| "words_from cur (c # cs) =
     (if is_space c then (if cur = [] then words_from [] cs else rev cur # words_from [] cs)
      else words_from (c # cur) cs)"

definition str_split :: "string \<Rightarrow> string list" where
  "str_split s = words_from [] s"

text \<open>\<open>sub in s\<close> for strings.\<close>

fun starts_with :: "string \<Rightarrow> string \<Rightarrow> bool" where
  "starts_with [] s = True"
| "starts_with (c # cs) [] = False"
| "starts_with (c # cs) (d # ds) = (c = d \<and> starts_with cs ds)"

fun contains :: "string \<Rightarrow> string \<Rightarrow> bool" where
  "contains sub [] = (sub = [])"
| "contains sub (c # cs) = (starts_with sub (c # cs) \<or> contains sub cs)"

text \<open>\<open>row[col]\<close> for a row of a table with the given columns.\<close>

definition row_get :: "string list \<Rightarrow> 'g cell list \<Rightarrow> string \<Rightarrow> 'g cell option" where
  "row_get cols row col = map_of (zip cols row) col"

text \<open>\<open>pd.isna\<close> on one value.\<close>

definition isna :: "'g cell \<Rightarrow> bool" where
  "isna v = (v = NaN \<or> v = NaT)"

text \<open>\<open>df.empty\<close> for a table with named columns: no rows or no columns.\<close>

definition frame_empty :: "'g frame \<Rightarrow> bool" where
  "frame_empty df = (cells df = [] \<or> columns df = [])"

text \<open>\<open>df.dropna(how="all")\<close>: the rows whose values are all missing are dropped.\<close>

definition dropna_all :: "'g frame \<Rightarrow> 'g frame" where
  "dropna_all df = df\<lparr>cells := filter (\<lambda>row. \<not> list_all isna row) (cells df)\<rparr>"

text \<open>
  \<open>df.to_crs(tgt)\<close> for a table whose CRS is \<open>src\<close>: the geometries of the column
  \<open>geometry\<close> are transformed.
\<close>

definition frame_to_crs :: "'g engine \<Rightarrow> crs \<Rightarrow> crs \<Rightarrow> 'g frame \<Rightarrow> 'g frame" where
  "frame_to_crs E src tgt df =
     df\<lparr>cells :=
          map (\<lambda>row. map (\<lambda>(col, v). case v of
                                       Geom g \<Rightarrow> if col = ''geometry'' then Geom (transform E src tgt g) else v
                                     | _ \<Rightarrow> v)
                        (zip (columns df) row))
            (cells df),
        frame_crs := Some tgt\<rparr>"

text \<open>
  \<open>pd.concat([base, new], ignore_index=True)\<close> for two tables with the same columns:
  the rows of the second follow those of the first.
\<close>

definition concat_rows :: "'g frame \<Rightarrow> 'g frame \<Rightarrow> 'g frame" where
  "concat_rows base new =
     \<lparr>columns = columns base,
      cells = cells base @ cells new,
      frame_crs = (case frame_crs base of None \<Rightarrow> frame_crs new | Some c \<Rightarrow> Some c)\<rparr>"

subsection \<open>robust\_date\_parse and make\_feature\<close>

definition SCHEMA_FIELDS :: "string list" where
  "SCHEMA_FIELDS = [''Name'', ''Date'', ''PSI'', ''Material'', ''geometry'']"

text \<open>The exceptions that lines 76 and 83 catch.\<close>

fun value_or_type_error :: "error \<Rightarrow> bool" where
  "value_or_type_error (ValueError msg) = True"
| "value_or_type_error (TypeError msg) = True"
| "value_or_type_error e = False"

text \<open>
  Lines 71 to 77: the value of the first format that parses the string, \<open>None\<close> when
  the loop ends without one; an exception of another class than the two caught leaves
  the function.
\<close>

fun try_formats :: "'g lib \<Rightarrow> string \<Rightarrow> string list \<Rightarrow> error + 'g cell option" where
  "try_formats L date_val [] = Inr None"
| "try_formats L date_val (fmt # fmts) =
     (case to_datetime L date_val fmt of
        Inr parsed \<Rightarrow> Inr (Some parsed)
      | Inl e \<Rightarrow> if value_or_type_error e then try_formats L date_val fmts else Inl e)"

text \<open>
  Lines 78 to 84 catch \<open>ValueError\<close> and \<open>TypeError\<close> only: an \<open>OverflowError\<close> of
  \<open>dateutil\<close> is raised to the caller.
\<close>

definition robust_date_parse :: "'g lib \<Rightarrow> 'g cell \<Rightarrow> error + 'g cell" where
  "robust_date_parse L date_val =
     (if isna date_val then Inr NaT
      else case date_val of
             Timestamp t \<Rightarrow> Inr (Timestamp t)
           | Str s \<Rightarrow>
               (case try_formats L s [''%Y-%m-%d'', ''%d/%m/%Y'', ''%m/%d/%Y''] of
                  Inl e \<Rightarrow> Inl e
                | Inr (Some parsed) \<Rightarrow> Inr parsed
                | Inr None \<Rightarrow>
                    (case dateutil_parse L s of
                       Inr parsed \<Rightarrow> Inr parsed
                     | Inl e \<Rightarrow> if value_or_type_error e then Inr NaT else Inl e))
           | _ \<Rightarrow> Inr NaT)"

text \<open>
  \<open>make_feature\<close> reads \<open>geometry.wkt\<close> for its log line and calls
  \<open>material.lower()\<close>: a value that is not a geometry, or not a string, raises
  \<open>AttributeError\<close>. \<open>gpd.GeoDataFrame(data, crs=crs)\<close> then raises \<open>CRSError\<close>
  for a CRS string that pyproj does not accept. The keys of the dictionary are
  \<open>SCHEMA_FIELDS[0]\<close> to \<open>SCHEMA_FIELDS[4]\<close>, in this order. The parameters
  \<open>geometry\<close> and \<open>crs\<close> of the source are \<open>geom\<close> and \<open>crs_code\<close> here.
\<close>

definition make_feature ::
  "'g lib \<Rightarrow> 'g cell \<Rightarrow> 'g cell \<Rightarrow> 'g cell \<Rightarrow> 'g cell \<Rightarrow> 'g cell \<Rightarrow> crs \<Rightarrow> error + 'g frame" where
  "make_feature L name date psi material geom crs_code =
     (case geom of
        Geom g \<Rightarrow>
          (case material of
             Str m \<Rightarrow>
               if crs_valid L crs_code
               then Inr \<lparr>columns = [SCHEMA_FIELDS ! 0, SCHEMA_FIELDS ! 1, SCHEMA_FIELDS ! 2,
                                    SCHEMA_FIELDS ! 3, SCHEMA_FIELDS ! 4],
                         cells = [[name, date, psi, Str (str_lower L m), geom]],
                         frame_crs = Some crs_code\<rparr>
               else Inl (CRSError crs_code)
           | _ \<Rightarrow> Inl (AttributeError ''lower''))
      | _ \<Rightarrow> Inl (AttributeError ''wkt''))"

subsection \<open>create\_pipeline\_features\<close>

text \<open>An upsert request: name, date, pressure, material and geometry.\<close>

type_synonym 'g request = "'g cell \<times> 'g cell \<times> 'g cell \<times> 'g cell \<times> 'g cell"

text \<open>
  Modelled from the spec: \<open>upsert_mongodb_feature\<close> (\<open>gis_tool.db_utils\<close>) is missing
  from src/. Spec 6: the feature persistence collaborator accepts upsert requests keyed
  by name, date, material and geometry. The collection is modelled by the requests it
  has received, oldest first.
\<close>

definition upsert_mongodb_feature ::
  "'g request list \<Rightarrow> 'g cell \<Rightarrow> 'g cell \<Rightarrow> 'g cell \<Rightarrow> 'g cell \<Rightarrow> 'g cell \<Rightarrow> 'g request list" where
  "upsert_mongodb_feature collection name date psi material geom =
     collection @ [(name, date, psi, material, geom)]"

text \<open>
  What the two loops build besides the set of processed reports: the table of gas
  lines (\<open>gas_lines_gdf\<close>), the names of the pipelines added (\<open>processed_pipelines\<close>),
  the flag \<open>features_added\<close>, and the requests received by the collection.
\<close>

record 'g acc =
  lines_gdf :: "'g frame"
  pipelines :: "'g cell set"
  added :: bool
  upserts :: "'g request list"

text \<open>Lines 199 to 209.\<close>

definition align_feature_dtypes :: "'g lib \<Rightarrow> 'g frame \<Rightarrow> 'g frame \<Rightarrow> 'g frame" where
  "align_feature_dtypes L new_feat base_gdf =
     (let reindexed =
            map (\<lambda>row. map (\<lambda>col. case row_get (columns new_feat) row col of
                                      None \<Rightarrow> NaN
                                    | Some v \<Rightarrow> v)
                          (columns base_gdf))
              (cells new_feat);
          cast =
            map (\<lambda>row. map (\<lambda>(col, v). case astype L base_gdf col v of
                                           None \<Rightarrow> v
                                         | Some v' \<Rightarrow> v')
                          (zip (columns base_gdf) row))
              reindexed
      in \<lparr>columns = columns base_gdf, cells = cast, frame_crs = frame_crs new_feat\<rparr>)"

text \<open>
  Lines 230 to 248, and again lines 290 to 303: the optional upsert of the values
  given, then the new feature is aligned with the table and appended unless all its
  values are missing.
\<close>

definition add_feature ::
  "'g lib \<Rightarrow> bool \<Rightarrow> 'g acc \<Rightarrow> 'g frame \<Rightarrow> 'g request \<Rightarrow> 'g cell \<Rightarrow> 'g acc" where
  "add_feature L mongo a new_feature request name =
     (let a = (if mongo
               then (case request of
                       (n, date, psi, material, point) \<Rightarrow>
                         a\<lparr>upserts := upsert_mongodb_feature (upserts a) n date psi material point\<rparr>)
               else a);
          new_feature = align_feature_dtypes L new_feature (lines_gdf a);
          valid_rows = dropna_all new_feature
      in if \<not> frame_empty valid_rows
         then a\<lparr>lines_gdf := concat_rows (lines_gdf a) valid_rows,
                 pipelines := insert name (pipelines a),
                 added := True\<rparr>
         else a)"

text \<open>Lines 226 to 248: one row of a GeoJSON report.\<close>

definition geojson_row ::
  "'g lib \<Rightarrow> crs \<Rightarrow> bool \<Rightarrow> string list \<Rightarrow> 'g acc \<Rightarrow> 'g cell list \<Rightarrow> error + 'g acc" where
  "geojson_row L spatial_reference mongo cols a row =
     (case row_get cols row ''geometry'' of
        None \<Rightarrow> Inl (AttributeError ''geometry'')
      | Some point \<Rightarrow>
          (case (row_get cols row ''Date'', row_get cols row ''Name'', row_get cols row ''PSI'',
                 row_get cols row ''Material'') of
             (Some date, Some name, Some psi, Some material) \<Rightarrow>
               (case robust_date_parse L date of
                  Inl e \<Rightarrow> Inl e
                | Inr parsed_date \<Rightarrow>
                    (case make_feature L name parsed_date psi material point spatial_reference of
                       Inl e \<Rightarrow> Inl e
                     | Inr new_feature \<Rightarrow>
                         Inr (add_feature L mongo a new_feature (name, date, psi, material, point)
                                name)))
           | _ \<Rightarrow> Inl (KeyError ''column'')))"

fun geojson_rows ::
  "'g lib \<Rightarrow> crs \<Rightarrow> bool \<Rightarrow> string list \<Rightarrow> 'g acc \<Rightarrow> 'g cell list list \<Rightarrow> error + 'g acc" where
  "geojson_rows L spatial_reference mongo cols a [] = Inr a"
| "geojson_rows L spatial_reference mongo cols a (row # rest) =
     (case geojson_row L spatial_reference mongo cols a row of
        Inl e \<Rightarrow> Inl e
      | Inr a \<Rightarrow> geojson_rows L spatial_reference mongo cols a rest)"

text \<open>Lines 218 and 219.\<close>

definition missing_fields :: "'g frame \<Rightarrow> string set" where
  "missing_fields gdf = (set SCHEMA_FIELDS - {''geometry''}) - set (columns gdf)"

text \<open>Lines 212 to 250: the loop over the GeoJSON reports.\<close>

fun geojson_loop ::
  "'g lib \<Rightarrow> crs \<Rightarrow> bool \<Rightarrow> string set \<times> 'g acc \<Rightarrow> (string \<times> 'g frame) list
     \<Rightarrow> error + (string set \<times> 'g acc)" where
  "geojson_loop L spatial_reference mongo (processed_reports, a) [] = Inr (processed_reports, a)"
| "geojson_loop L spatial_reference mongo (processed_reports, a) ((report_name, gdf) # rest) =
     (if report_name \<in> processed_reports
      then geojson_loop L spatial_reference mongo (processed_reports, a) rest
      else if missing_fields gdf \<noteq> {}
      then geojson_loop L spatial_reference mongo (insert report_name processed_reports, a) rest
      else
        (case geojson_rows L spatial_reference mongo (columns gdf) a (cells gdf) of
           Inl e \<Rightarrow> Inl e
         | Inr a \<Rightarrow>
             geojson_loop L spatial_reference mongo (insert report_name processed_reports, a) rest))"

text \<open>Lines 260 to 303: one line of a TXT report.\<close>

definition txt_line :: "'g lib \<Rightarrow> crs \<Rightarrow> bool \<Rightarrow> 'g acc \<Rightarrow> string \<Rightarrow> error + 'g acc" where
  "txt_line L spatial_reference mongo a line =
     (if contains ''Id Name'' line then Inr a
      else
        (let data = str_split line in
         if length data < 7 then Inr a
         else
           (case (float_of L (data ! 2), float_of L (data ! 3), float_of L (data ! 5)) of
              (Some x_coord, Some y_coord, Some psi) \<Rightarrow>
                (let line_name = data ! 1;
                     date_completed = data ! 4;
                     material = str_lower L (data ! 6)
                 in if Str line_name \<notin> pipelines a
                    then
                      (let point = Point L x_coord y_coord
                       in case robust_date_parse L (Str date_completed) of
                            Inl e \<Rightarrow> Inl e
                          | Inr parsed_date \<Rightarrow>
                              (case make_feature L (Str line_name) parsed_date (Num psi)
                                      (Str material) (Geom point) spatial_reference of
                                 Inl e \<Rightarrow> Inl e
                               | Inr new_feature \<Rightarrow>
                                   Inr (add_feature L mongo a new_feature
                                          (Str line_name, Str date_completed, Num psi,
                                           Str material, Geom point)
                                          (Str line_name))))
                    else Inr a)
            | _ \<Rightarrow> Inr a)))"

fun txt_lines :: "'g lib \<Rightarrow> crs \<Rightarrow> bool \<Rightarrow> 'g acc \<Rightarrow> string list \<Rightarrow> error + 'g acc" where
  "txt_lines L spatial_reference mongo a [] = Inr a"
| "txt_lines L spatial_reference mongo a (line # rest) =
     (case txt_line L spatial_reference mongo a line of
        Inl e \<Rightarrow> Inl e
      | Inr a \<Rightarrow> txt_lines L spatial_reference mongo a rest)"

text \<open>Lines 253 to 305: the loop over the TXT reports.\<close>

fun txt_loop ::
  "'g lib \<Rightarrow> crs \<Rightarrow> bool \<Rightarrow> string set \<times> 'g acc \<Rightarrow> (string \<times> string list) list
     \<Rightarrow> error + (string set \<times> 'g acc)" where
  "txt_loop L spatial_reference mongo (processed_reports, a) [] = Inr (processed_reports, a)"
| "txt_loop L spatial_reference mongo (processed_reports, a) ((report_name, lines) # rest) =
     (if report_name \<in> processed_reports
      then txt_loop L spatial_reference mongo (processed_reports, a) rest
      else
        (case txt_lines L spatial_reference mongo a lines of
           Inl e \<Rightarrow> Inl e
         | Inr a \<Rightarrow> txt_loop L spatial_reference mongo (insert report_name processed_reports, a) rest))"

text \<open>
  Lines 184 to 188, and lines 192 to 197 for one report: a table whose CRS is set and
  differs from the target is reprojected. Reading \<open>.crs\<close> of a table that has no
  geometry column raises \<open>AttributeError\<close>, and \<open>to_crs\<close> raises \<open>CRSError\<close> for
  a target that pyproj does not accept.
\<close>

definition normalize_crs :: "'g engine \<Rightarrow> 'g lib \<Rightarrow> crs \<Rightarrow> 'g frame \<Rightarrow> error + 'g frame" where
  "normalize_crs E L spatial_reference gdf =
     (if ''geometry'' \<notin> set (columns gdf) then Inl (AttributeError ''crs'')
      else case frame_crs gdf of
             None \<Rightarrow> Inr gdf
           | Some c \<Rightarrow>
               if c \<noteq> spatial_reference
               then (if crs_valid L spatial_reference
                     then Inr (frame_to_crs E c spatial_reference gdf)
                     else Inl (CRSError spatial_reference))
               else Inr gdf)"

text \<open>Lines 191 to 197: every report of the list is normalized, before any is processed.\<close>

fun normalize_reports ::
  "'g engine \<Rightarrow> 'g lib \<Rightarrow> crs \<Rightarrow> (string \<times> 'g frame) list \<Rightarrow> error + (string \<times> 'g frame) list" where
  "normalize_reports E L spatial_reference [] = Inr []"
| "normalize_reports E L spatial_reference ((report_name, gdf) # rest) =
     (case normalize_crs E L spatial_reference gdf of
        Inl e \<Rightarrow> Inl e
      | Inr gdf \<Rightarrow>
          (case normalize_reports E L spatial_reference rest of
             Inl e \<Rightarrow> Inl e
           | Inr rest \<Rightarrow> Inr ((report_name, gdf) # rest)))"

text \<open>
  The function returns the set of processed reports, the table and the flag; the model
  pairs them with the upsert requests sent. \<open>gas_lines_collection\<close> is \<open>None\<close> or some
  collection, whose content the function does not read.
\<close>

definition create_pipeline_features ::
  "'g engine \<Rightarrow> 'g lib \<Rightarrow> (string \<times> 'g frame) list \<Rightarrow> (string \<times> string list) list \<Rightarrow> 'g frame
     \<Rightarrow> crs \<Rightarrow> 'c option \<Rightarrow> string set option \<Rightarrow> bool
     \<Rightarrow> error + ((string set \<times> 'g frame \<times> bool) \<times> 'g request list)" where
  "create_pipeline_features E L geojson_reports txt_reports gas_lines_gdf spatial_reference
       gas_lines_collection processed_reports use_mongodb =
     (let processed_reports = (case processed_reports of None \<Rightarrow> {} | Some s \<Rightarrow> s)
      in case normalize_crs E L spatial_reference gas_lines_gdf of
           Inl e \<Rightarrow> Inl e
         | Inr gas_lines_gdf \<Rightarrow>
             (case normalize_reports E L spatial_reference geojson_reports of
                Inl e \<Rightarrow> Inl e
              | Inr geojson_reports \<Rightarrow>
                  (let mongo = (use_mongodb \<and> gas_lines_collection \<noteq> None);
                       a = \<lparr>lines_gdf = gas_lines_gdf, pipelines = {}, added = False,
                            upserts = []\<rparr>
                   in case geojson_loop L spatial_reference mongo (processed_reports, a)
                             geojson_reports of
                        Inl e \<Rightarrow> Inl e
                      | Inr (processed_reports, a) \<Rightarrow>
                          (case txt_loop L spatial_reference mongo (processed_reports, a)
                                  txt_reports of
                             Inl e \<Rightarrow> Inl e
                           | Inr (processed_reports, a) \<Rightarrow>
                               Inr ((processed_reports, lines_gdf a, added a), upserts a)))))"

section \<open>An assumption on the geometry engine\<close>

text \<open>Reprojection does not change the kind of a geometry.\<close>

definition kind_preserving :: "'g engine \<Rightarrow> bool" where
  "kind_preserving E = (\<forall>src tgt g. geom_type E (transform E src tgt g) = geom_type E g)"

section \<open>A small geometry engine, to run the model on concrete inputs\<close>

text \<open>
  Geometries on a line of unit cells: a kind, the cells covered and a validity flag.
  Buffering by a positive distance adds the neighbouring cells and yields a polygon,
  the difference removes cells, two geometries intersect when they share a cell, and
  reprojection shifts a geometry by the difference of the origins of the two systems.
  Repair turns an invalid geometry into the empty geometry of its kind, as a
  zero-distance buffer does with a degenerate polygon. The product of two floats is
  rounded to four decimal places.
\<close>

datatype toy = Toy string "int list" bool

definition toy_origin :: "crs \<Rightarrow> int" where
  "toy_origin c = (if c = ''EPSG:4326'' then 100 else 0)"

definition toy_engine :: "toy engine" where
  "toy_engine =
     \<lparr>geom_type = (\<lambda>g. case g of Toy k cs v \<Rightarrow> k),
      is_valid = (\<lambda>g. case g of Toy k cs v \<Rightarrow> v),
      is_empty = (\<lambda>g. case g of Toy k cs v \<Rightarrow> cs = []),
      buffer = (\<lambda>g d. case g of Toy k cs v \<Rightarrow>
                  Toy ''Polygon'' (if 0 < d then remdups (concat (map (\<lambda>c. [c - 1, c, c + 1]) cs)) else cs) v),
      difference = (\<lambda>g h. case g of Toy k cs v \<Rightarrow>
                      (case h of Toy k' ds v' \<Rightarrow> Toy k (filter (\<lambda>c. c \<notin> set ds) cs) v)),
      intersects = (\<lambda>g h. case g of Toy k cs v \<Rightarrow>
                      (case h of Toy k' ds v' \<Rightarrow> list_ex (\<lambda>c. c \<in> set ds) cs)),
      transform = (\<lambda>src tgt g. case g of Toy k cs v \<Rightarrow>
                     Toy k (map (\<lambda>c. c + toy_origin tgt - toy_origin src) cs) v),
      is_geographic = (\<lambda>c. c = ''EPSG:4326'')\<rparr>"

definition toy_deps :: "(string, toy) deps" where
  "toy_deps =
     \<lparr>DEFAULT_BUFFER_DISTANCE_FT = 25,
      DEFAULT_CRS = ''EPSG:4326'',
      GEOGRAPHIC_CRS = ''EPSG:4326'',
      BUFFER_LAYER_CRS = ''EPSG:32610'',
      get_driver_from_extension = (\<lambda>p. Some ''ESRI Shapefile''),
      fix_geometry = (\<lambda>geom. case geom of
                        None \<Rightarrow> None
                      | Some g \<Rightarrow> (case g of Toy k cs v \<Rightarrow> Some (if v then g else Toy k [] True))),
      clean_geodataframe = (\<lambda>df. df),
      metric_crs = (\<lambda>df. ''EPSG:32610''),
      float_mul = (\<lambda>x y. of_int \<lfloor>x * y * 10000 + 1 / 2\<rfloor> / 10000)\<rparr>"

text \<open>A file system holding the given datasets, every path writable, nothing written yet.\<close>

definition toy_fs :: "(path \<times> (string, toy) gdf) list \<Rightarrow> (string, toy) fs" where
  "toy_fs stored = \<lparr>files = map_of stored, unwritable = (\<lambda>p. False), write_log = []\<rparr>"

text \<open>
  A buffer operation that answers like the toy engine at one distance only, and with an
  empty polygon at every other distance: it shows which distance a run buffers with.
\<close>

definition toy_buffer_only_at :: "real \<Rightarrow> toy \<Rightarrow> real \<Rightarrow> toy" where
  "toy_buffer_only_at m g d = (if d = m then buffer toy_engine g d else Toy ''Polygon'' [] False)"

subsection \<open>Concrete datasets\<close>

definition ex_planning :: "(string, toy) gdf" where
  "ex_planning =
     \<lparr>rows = [\<lparr>attrs = ''lot 1'', geometry = Some (Toy ''Polygon'' [4, 5] True)\<rparr>],
      crs = Some ''EPSG:32610''\<rparr>"

definition ex_no_rows :: "(string, toy) gdf" where
  "ex_no_rows = \<lparr>rows = [], crs = Some ''EPSG:32610''\<rparr>"

definition ex_null_buffer :: "(string, toy) gdf" where
  "ex_null_buffer = \<lparr>rows = [\<lparr>attrs = ''main 1'', geometry = None\<rparr>], crs = Some ''EPSG:32610''\<rparr>"

definition ex_gas_lines :: "(string, toy) gdf" where
  "ex_gas_lines =
     \<lparr>rows = [\<lparr>attrs = ''main 1'', geometry = Some (Toy ''LineString'' [0] True)\<rparr>],
      crs = Some ''EPSG:32610''\<rparr>"

definition ex_parks :: "(string, toy) gdf" where
  "ex_parks =
     \<lparr>rows = [\<lparr>attrs = ''park'', geometry = Some (Toy ''Polygon'' [0] True)\<rparr>],
      crs = Some ''EPSG:32610''\<rparr>"

definition ex_buffers :: "(string, toy) gdf" where
  "ex_buffers =
     \<lparr>rows = [\<lparr>attrs = ''main 1'', geometry = Some (Toy ''Polygon'' [- 1, 0, 1] True)\<rparr>],
      crs = Some ''EPSG:32610''\<rparr>"

definition ex_ring :: "(string, toy) gdf" where
  "ex_ring =
     \<lparr>rows = [\<lparr>attrs = ''main 1'', geometry = Some (Toy ''Polygon'' [- 1, 1] True)\<rparr>],
      crs = Some ''EPSG:32610''\<rparr>"

definition ex_merged_4326 :: "(string, toy) gdf" where
  "ex_merged_4326 =
     \<lparr>rows = [\<lparr>attrs = ''lot 1'', geometry = Some (Toy ''Polygon'' [104, 105] True)\<rparr>,
              \<lparr>attrs = ''main 1'', geometry = Some (Toy ''Polygon'' [99, 100, 101] True)\<rparr>],
      crs = Some ''EPSG:4326''\<rparr>"

definition ex_mixed_planning :: "(string, toy) gdf" where
  "ex_mixed_planning =
     \<lparr>rows = [\<lparr>attrs = ''lot 1'', geometry = Some (Toy ''Polygon'' [4, 5] True)\<rparr>,
              \<lparr>attrs = ''road 7'', geometry = Some (Toy ''LineString'' [7] True)\<rparr>],
      crs = Some ''EPSG:32610''\<rparr>"

definition ex_invalid_buffer :: "(string, toy) gdf" where
  "ex_invalid_buffer =
     \<lparr>rows = [\<lparr>attrs = ''main 2'', geometry = Some (Toy ''Polygon'' [8, 9] False)\<rparr>],
      crs = Some ''EPSG:32610''\<rparr>"

definition ex_two_buffers :: "(string, toy) gdf" where
  "ex_two_buffers =
     \<lparr>rows = [\<lparr>attrs = ''main 1'', geometry = Some (Toy ''Polygon'' [- 1, 0, 1] True)\<rparr>,
              \<lparr>attrs = ''main 2'', geometry = Some (Toy ''Polygon'' [8, 9] False)\<rparr>],
      crs = Some ''EPSG:32610''\<rparr>"

text \<open>The buffers of the gas line in two other systems, and an empty planning layer in EPSG:4326.\<close>

definition ex_buffers_4326 :: "(string, toy) gdf" where
  "ex_buffers_4326 =
     \<lparr>rows = [\<lparr>attrs = ''main 1'', geometry = Some (Toy ''Polygon'' [99, 100, 101] True)\<rparr>],
      crs = Some ''EPSG:4326''\<rparr>"

definition ex_no_rows_4326 :: "(string, toy) gdf" where
  "ex_no_rows_4326 = \<lparr>rows = [], crs = Some ''EPSG:4326''\<rparr>"

definition ex_buffers_3857 :: "(string, toy) gdf" where
  "ex_buffers_3857 =
     \<lparr>rows = [\<lparr>attrs = ''main 1'', geometry = Some (Toy ''Polygon'' [- 1, 0, 1] True)\<rparr>],
      crs = Some ''EPSG:3857''\<rparr>"

text \<open>
  Library functions for the small engine: one date format and one date are known,
  \<open>float\<close> reads three numerals, a cast leaves a value as it is, and a point lies in the
  cell of its first coordinate. Then a table of gas lines without rows, a GeoJSON report
  without the columns Date, PSI and Material, a complete one, and the lines of a TXT
  report.
\<close>

text \<open>
  \<open>str.lower()\<close> on code points below 256: the letters A to Z and the accented capitals
  192 to 222, the multiplication sign 215 apart, move up by 32.
\<close>

definition latin1_lower_char :: "char \<Rightarrow> char" where
  "latin1_lower_char c =
     (let n = (of_char c :: nat)
      in if (65 \<le> n \<and> n \<le> 90) \<or> (192 \<le> n \<and> n \<le> 222 \<and> n \<noteq> 215)
         then char_of (n + 32) else c)"

definition latin1_lower :: "string \<Rightarrow> string" where
  "latin1_lower s = map latin1_lower_char s"

text \<open>
  A library that knows one date, three numbers and two CRS codes, and whose date
  parser of last resort overflows on a long run of digits and rejects everything else.
\<close>

definition toy_lib :: "toy lib" where
  "toy_lib =
     \<lparr>to_datetime = (\<lambda>s fmt. if fmt = ''%Y-%m-%d'' \<and> s = ''2024-05-01''
                               then Inr (Timestamp 1714521600)
                               else Inl (ValueError ''time data does not match format'')),
      dateutil_parse = (\<lambda>s. if s = ''99999999999999999999''
                             then Inl (OverflowError ''Python int too large to convert to C long'')
                             else Inl (ValueError ''Unknown string format'')),
      float_of = map_of [(''3'', 3), (''4'', 4), (''150'', 150)],
      astype = (\<lambda>base col v. Some v),
      Point = (\<lambda>x y. Toy ''Point'' [\<lfloor>x\<rfloor>] True),
      str_lower = latin1_lower,
      crs_valid = (\<lambda>c. c \<in> {''EPSG:4326'', ''EPSG:32610''})\<rparr>"

definition ex_lines_table :: "toy frame" where
  "ex_lines_table = \<lparr>columns = SCHEMA_FIELDS, cells = [], frame_crs = Some ''EPSG:4326''\<rparr>"

definition ex_bad_report :: "toy frame" where
  "ex_bad_report =
     \<lparr>columns = [''Name'', ''geometry''],
      cells = [[Str ''main 3'', Geom (Toy ''Point'' [1] True)]],
      frame_crs = Some ''EPSG:4326''\<rparr>"

definition ex_good_report :: "toy frame" where
  "ex_good_report =
     \<lparr>columns = [''Name'', ''Date'', ''PSI'', ''Material'', ''geometry''],
      cells = [[Str ''main 5'', Str ''2024-05-01'', Num 120, Str ''PVC'', Geom (Toy ''Point'' [2] True)]],
      frame_crs = Some ''EPSG:4326''\<rparr>"

definition ex_txt :: "string list" where
  "ex_txt = [''Id Name X Y Date PSI Material'', ''1 main7 3 4 2024-05-01 150 Steel'']"

definition ex_lines_result :: "toy frame" where
  "ex_lines_result =
     \<lparr>columns = [''Name'', ''Date'', ''PSI'', ''Material'', ''geometry''],
      cells = [[Str ''main 5'', Timestamp 1714521600, Num 120, Str ''pvc'', Geom (Toy ''Point'' [2] True)],
               [Str ''main7'', Timestamp 1714521600, Num 150, Str ''steel'', Geom (Toy ''Point'' [3] True)]],
      frame_crs = Some ''EPSG:4326''\<rparr>"

section \<open>Properties\<close>

text \<open>The equations that unfold the model on a concrete input.\<close>

lemmas model_defs =
  read_file_def to_file_def gdf_empty_def geom_type_of_def notnull_def row_is_valid_def
  row_is_empty_def isin_def unique_def select_def apply_geometry_def assign_geometry_def
  set_crs_def reproject_def to_crs_def pd_concat_def convert_ft_to_m_def
  log_and_filter_invalid_geometries_def validate_and_reproject_crs_def ensure_projected_crs_def
  buffer_intersects_gas_lines_def subtract_park_from_geom_def parallel_process_def
  buffer_geometry_helper_def subtract_park_from_geom_helper_def allowed_park_types_def
  prepare_parks_def subtract_parks_from_buffer_def allowed_geom_types_def buffer_distance_m_def
  truthy_def create_buffer_with_geopandas_def polygon_types_def to_crs_opt_def series_to_crs_def
  merge_resolve_crs_def harmonize_planning_def clean_layer_def resolve_output_crs_def
  merge_and_write_def merge_buffers_into_planning_file_def Let_def

lemmas toy_defs = toy_engine_def toy_deps_def toy_fs_def toy_origin_def

lemmas ex_defs =
  ex_planning_def ex_no_rows_def ex_null_buffer_def ex_gas_lines_def ex_parks_def ex_buffers_def
  ex_ring_def ex_mixed_planning_def ex_invalid_buffer_def ex_two_buffers_def ex_merged_4326_def
  ex_buffers_4326_def ex_no_rows_4326_def ex_buffers_3857_def

subsection \<open>Selecting and mapping rows\<close>

lemma rows_select: "rows (select P df) = filter P (rows df)"
  by (simp add: select_def)

lemma select_all:
  assumes "list_all P (rows df)"
  shows "select P df = df"
proof -
  have "filter P (rows df) = rows df"
    using assms by (simp add: list_all_iff)
  then show ?thesis by (simp add: select_def)
qed

lemma apply_geometry_fixed:
  assumes "list_all (\<lambda>r. f (geometry r) = geometry r) (rows df)"
  shows "apply_geometry f df = df"
proof -
  have "map (\<lambda>r. r\<lparr>geometry := f (geometry r)\<rparr>) (rows df) = rows df"
    using assms by (intro map_idI) (simp add: list_all_iff)
  then show ?thesis by (simp add: apply_geometry_def)
qed

lemma assign_geometry_map:
  "assign_geometry df (map k (rows df)) = df\<lparr>rows := map (\<lambda>r. r\<lparr>geometry := k r\<rparr>) (rows df)\<rparr>"
  by (simp add: assign_geometry_def zip_map2 zip_same_conv_map comp_def)

subsection \<open>Merging: the empty buffer layer\<close>

text \<open>
  Claim C2. When both layers can be read and the buffer layer read from
  \<open>unique_output_buffer\<close> has no rows, \<open>merge_buffers_into_planning_file\<close> returns the
  planning layer exactly as loaded and leaves the file system, with its log of writes,
  as it was.
\<close>

theorem merge_empty_buffer_unchanged:
  assumes "read_file fs unique_output_buffer = Inr buffer_gdf"
    and "gdf_empty buffer_gdf"
    and "read_file fs future_development_feature_class = Inr future_dev_gdf"
  shows "merge_buffers_into_planning_file E D fs unique_output_buffer
           future_development_feature_class point_buffer_distance output_crs
         = (Inr future_dev_gdf, fs)"
  using assms by (simp add: merge_buffers_into_planning_file_def)

theorem merge_empty_buffer_unchanged_witness:
  "gdf_empty ex_no_rows \<and>
   merge_buffers_into_planning_file toy_engine toy_deps
      (toy_fs [(''buffer.shp'', ex_no_rows), (''planning.shp'', ex_planning)])
      ''buffer.shp'' ''planning.shp'' 10 None
   = (Inr ex_planning, toy_fs [(''buffer.shp'', ex_no_rows), (''planning.shp'', ex_planning)])"
proof -
  let ?fs = "toy_fs [(''buffer.shp'', ex_no_rows), (''planning.shp'', ex_planning)]"
  have b: "read_file ?fs ''buffer.shp'' = Inr ex_no_rows"
    by (simp add: read_file_def toy_fs_def)
  have e: "gdf_empty ex_no_rows"
    by (simp add: gdf_empty_def ex_no_rows_def)
  have p: "read_file ?fs ''planning.shp'' = Inr ex_planning"
    by (simp add: read_file_def toy_fs_def)
  show ?thesis
    using e merge_empty_buffer_unchanged [OF b e p, of toy_engine toy_deps 10 None] by simp
qed


subsection \<open>Valid geometries in the results\<close>

lemma subtract_rows_valid:
  assumes "subtract_parks_from_buffer E D fs buffer_gdf (Some p) mp = Inr out"
  shows "list_all (\<lambda>r. notnull r \<and> row_is_valid E r \<and> \<not> row_is_empty E r) (rows out)"
proof -
  obtain df where "out = select (\<lambda>r. row_is_valid E r \<and> \<not> row_is_empty E r) df"
    using assms
    by (auto simp: subtract_parks_from_buffer_def Let_def split: sum.splits)
  then show ?thesis
    by (auto simp: rows_select list_all_iff notnull_def row_is_valid_def split: option.splits)
qed

lemma create_rows_valid:
  assumes "create_buffer_with_geopandas E D fs p ft parks mp = Inr out"
  shows "list_all (\<lambda>r. notnull r \<and> row_is_valid E r \<and> \<not> row_is_empty E r) (rows out)"
proof -
  have "rows out = [] \<or> (\<exists>df. out = select (\<lambda>r. row_is_valid E r \<and> \<not> row_is_empty E r) df)"
    using assms
    by (auto simp: create_buffer_with_geopandas_def Let_def gdf_empty_def split: sum.splits if_splits)
  then show ?thesis
    by (auto simp: rows_select list_all_iff notnull_def row_is_valid_def split: option.splits)
qed

text \<open>
  Claim C8, as stated, fails: called without an exclusion path,
  \<open>subtract_parks_from_buffer\<close> returns its input as it is, here a buffer layer whose one
  row has a null geometry.
\<close>

theorem subtract_without_path_counterexample:
  "subtract_parks_from_buffer toy_engine toy_deps (toy_fs []) ex_null_buffer None False
     = Inr ex_null_buffer
   \<and> \<not> list_all (\<lambda>r. notnull r \<and> row_is_valid toy_engine r \<and> \<not> row_is_empty toy_engine r)
         (rows ex_null_buffer)"
  by (simp add: model_defs toy_defs ex_defs)

text \<open>
  Claim C8, amended. Every row of the GeoDataFrame returned by
  \<open>create_buffer_with_geopandas\<close>, and by \<open>subtract_parks_from_buffer\<close> when it is
  called with an exclusion path, has a non-null, valid, non-empty geometry.
\<close>

theorem returned_rows_valid:
  "(create_buffer_with_geopandas E D fs p ft parks mp = Inr out \<longrightarrow>
      list_all (\<lambda>r. notnull r \<and> row_is_valid E r \<and> \<not> row_is_empty E r) (rows out)) \<and>
   (subtract_parks_from_buffer E D fs buffer_gdf (Some pp) mp' = Inr out' \<longrightarrow>
      list_all (\<lambda>r. notnull r \<and> row_is_valid E r \<and> \<not> row_is_empty E r) (rows out'))"
  using create_rows_valid subtract_rows_valid by blast

theorem returned_rows_valid_witness:
  "create_buffer_with_geopandas toy_engine toy_deps
     (toy_fs [(''gas_lines.shp'', ex_gas_lines), (''parks.shp'', ex_parks)])
     ''gas_lines.shp'' (Some 10) None False = Inr ex_buffers \<and>
   list_all (\<lambda>r. notnull r \<and> row_is_valid toy_engine r \<and> \<not> row_is_empty toy_engine r)
     (rows ex_buffers) \<and>
   subtract_parks_from_buffer toy_engine toy_deps
     (toy_fs [(''gas_lines.shp'', ex_gas_lines), (''parks.shp'', ex_parks)])
     ex_buffers (Some ''parks.shp'') False = Inr ex_ring \<and>
   list_all (\<lambda>r. notnull r \<and> row_is_valid toy_engine r \<and> \<not> row_is_empty toy_engine r)
     (rows ex_ring)"
proof -
  let ?fs = "toy_fs [(''gas_lines.shp'', ex_gas_lines), (''parks.shp'', ex_parks)]"
  have c: "create_buffer_with_geopandas toy_engine toy_deps ?fs ''gas_lines.shp'' (Some 10) None False
           = Inr ex_buffers"
    by (simp add: model_defs toy_defs ex_defs)
  have s: "subtract_parks_from_buffer toy_engine toy_deps ?fs ex_buffers (Some ''parks.shp'') False
           = Inr ex_ring"
    by (simp add: model_defs toy_defs ex_defs)
  show ?thesis
    using c s
      returned_rows_valid [of toy_engine toy_deps ?fs "''gas_lines.shp''" "Some 10" None False
        ex_buffers ex_buffers "''parks.shp''" False ex_ring]
    by simp
qed

subsection \<open>The source-intersection filter\<close>

text \<open>
  Claim C1 says that every returned row intersects a geometry of the original source
  dataset. The filter of lines 114 to 116 tests against \<open>gas_lines_gdf\<close>, which by then
  holds the buffers themselves. Here a gas line in cell 0 is buffered to cells -1, 0, 1,
  a park covering cell 0 is subtracted, and the ring that is left is returned although
  it does not intersect the gas line.
\<close>

theorem create_buffer_keeps_disjoint_ring:
  "create_buffer_with_geopandas toy_engine toy_deps
     (toy_fs [(''gas_lines.shp'', ex_gas_lines), (''parks.shp'', ex_parks)])
     ''gas_lines.shp'' (Some 10) (Some ''parks.shp'') False
   = Inr \<lparr>rows = [\<lparr>attrs = ''main 1'', geometry = Some (Toy ''Polygon'' [- 1, 1] True)\<rparr>],
          crs = Some ''EPSG:32610''\<rparr>
   \<and> \<not> buffer_intersects_gas_lines toy_engine (Some (Toy ''Polygon'' [- 1, 1] True)) ex_gas_lines"
  by (simp add: model_defs toy_defs ex_defs)

subsection \<open>The buffer distance\<close>

text \<open>Only the buffer operation of the engine is replaced: everything else reads the same.\<close>

lemma buffer_update_fields:
  "geom_type (E\<lparr>buffer := b\<rparr>) = geom_type E"
  "is_valid (E\<lparr>buffer := b\<rparr>) = is_valid E"
  "is_empty (E\<lparr>buffer := b\<rparr>) = is_empty E"
  "difference (E\<lparr>buffer := b\<rparr>) = difference E"
  "intersects (E\<lparr>buffer := b\<rparr>) = intersects E"
  "transform (E\<lparr>buffer := b\<rparr>) = transform E"
  "is_geographic (E\<lparr>buffer := b\<rparr>) = is_geographic E"
  by simp_all

lemma buffer_update_rows:
  "geom_type_of (E\<lparr>buffer := b\<rparr>) r = geom_type_of E r"
  "row_is_valid (E\<lparr>buffer := b\<rparr>) r = row_is_valid E r"
  "row_is_empty (E\<lparr>buffer := b\<rparr>) r = row_is_empty E r"
  "reproject (E\<lparr>buffer := b\<rparr>) src tgt df = reproject E src tgt df"
  "subtract_park_from_geom (E\<lparr>buffer := b\<rparr>) geom parks_geoms
   = subtract_park_from_geom E geom parks_geoms"
  unfolding geom_type_of_def row_is_valid_def row_is_empty_def reproject_def
    subtract_park_from_geom_def buffer_update_fields by (rule refl)+

lemma buffer_update_stages:
  "ensure_projected_crs (E\<lparr>buffer := b\<rparr>) D df = ensure_projected_crs E D df"
  "log_and_filter_invalid_geometries (E\<lparr>buffer := b\<rparr>) df = log_and_filter_invalid_geometries E df"
  "validate_and_reproject_crs (E\<lparr>buffer := b\<rparr>) D df tgt = validate_and_reproject_crs E D df tgt"
  "buffer_intersects_gas_lines (E\<lparr>buffer := b\<rparr>) buf_geom df = buffer_intersects_gas_lines E buf_geom df"
  "subtract_park_from_geom_helper (E\<lparr>buffer := b\<rparr>) arg = subtract_park_from_geom_helper E arg"
  unfolding ensure_projected_crs_def log_and_filter_invalid_geometries_def
    validate_and_reproject_crs_def buffer_intersects_gas_lines_def
    subtract_park_from_geom_helper_def buffer_update_rows buffer_update_fields by (rule refl)+

lemma buffer_update_subtract:
  "subtract_parks_from_buffer (E\<lparr>buffer := b\<rparr>) D fs buffer_gdf parks_path mp
   = subtract_parks_from_buffer E D fs buffer_gdf parks_path mp"
proof -
  have h: "subtract_park_from_geom_helper (E\<lparr>buffer := b\<rparr>) = subtract_park_from_geom_helper E"
    by (simp add: fun_eq_iff buffer_update_stages)
  show ?thesis
    unfolding subtract_parks_from_buffer_def prepare_parks_def buffer_update_rows
      buffer_update_stages h ..
qed

lemmas buffer_update_helpers = buffer_update_rows buffer_update_stages buffer_update_subtract

text \<open>
  Claim C6. The distance in meters that \<open>create_buffer_with_geopandas\<close> buffers with is
  the floating-point product of the distance in feet and 0.3048, where the distance in feet
  is the caller's, or the configured default when the caller passes none
  (lines 52 to 54, \<open>convert_ft_to_m\<close>). The run uses the buffer operation of the
  geometry engine at that distance and at no other: replacing the operation by one that
  agrees with it at that distance alone leaves the whole run unchanged, whatever the
  files, the parks and the multiprocessing flag are. The product is that of the
  parameter \<open>float_mul\<close>, so nothing here depends on how doubles round.
\<close>

theorem buffer_distance_used:
  assumes m: "m = float_mul D (case buffer_distance_ft of
                                 None \<Rightarrow> DEFAULT_BUFFER_DISTANCE_FT D
                               | Some ft \<Rightarrow> ft) 0.3048"
    and same: "\<forall>g. b g m = buffer E g m"
  shows "buffer_distance_m D buffer_distance_ft = m \<and>
         create_buffer_with_geopandas (E\<lparr>buffer := b\<rparr>) D fs input_gas_lines_path
             buffer_distance_ft parks_path use_multiprocessing
         = create_buffer_with_geopandas E D fs input_gas_lines_path
             buffer_distance_ft parks_path use_multiprocessing"
proof -
  have d: "buffer_distance_m D buffer_distance_ft = m"
    by (simp add: m buffer_distance_m_def convert_ft_to_m_def)
  have h: "buffer_geometry_helper (E\<lparr>buffer := b\<rparr>) (geom, m) = buffer_geometry_helper E (geom, m)"
    for geom
    using same by (cases geom) (simp_all add: buffer_geometry_helper_def)
  have s: "(\<lambda>g. buffer (E\<lparr>buffer := b\<rparr>) g m) = (\<lambda>g. buffer E g m)"
    using same by (simp add: fun_eq_iff)
  have p: "parallel_process (buffer_geometry_helper (E\<lparr>buffer := b\<rparr>)) (map (\<lambda>r. (geometry r, m)) rs)
           = parallel_process (buffer_geometry_helper E) (map (\<lambda>r. (geometry r, m)) rs)" for rs
    by (simp add: parallel_process_def h)
  have "create_buffer_with_geopandas (E\<lparr>buffer := b\<rparr>) D fs input_gas_lines_path
             buffer_distance_ft parks_path use_multiprocessing
         = create_buffer_with_geopandas E D fs input_gas_lines_path
             buffer_distance_ft parks_path use_multiprocessing"
    unfolding create_buffer_with_geopandas_def d Let_def buffer_update_helpers p s ..
  with d show ?thesis by simp
qed

text \<open>
  On the toy engine: at 10 feet the run buffers with 3.048, and with the default of 25
  feet, on the multiprocessing path, with 7.62; a buffer operation that answers at 10
  only, the distance in feet, leaves no row.
\<close>

theorem buffer_distance_used_witness:
  "buffer_distance_m toy_deps (Some 10) = 3.048 \<and>
   create_buffer_with_geopandas (toy_engine\<lparr>buffer := toy_buffer_only_at 3.048\<rparr>) toy_deps
     (toy_fs [(''gas_lines.shp'', ex_gas_lines)]) ''gas_lines.shp'' (Some 10) None False
     = Inr ex_buffers \<and>
   create_buffer_with_geopandas (toy_engine\<lparr>buffer := toy_buffer_only_at 10\<rparr>) toy_deps
     (toy_fs [(''gas_lines.shp'', ex_gas_lines)]) ''gas_lines.shp'' (Some 10) None False
     = Inr \<lparr>rows = [], crs = Some ''EPSG:32610''\<rparr> \<and>
   buffer_distance_m toy_deps None = 7.62 \<and>
   create_buffer_with_geopandas (toy_engine\<lparr>buffer := toy_buffer_only_at 7.62\<rparr>) toy_deps
     (toy_fs [(''gas_lines.shp'', ex_gas_lines)]) ''gas_lines.shp'' None None True
     = Inr ex_buffers"
proof -
  let ?fs = "toy_fs [(''gas_lines.shp'', ex_gas_lines)]"
  have m: "(3.048 :: real) = float_mul toy_deps (case Some 10 of
              None \<Rightarrow> DEFAULT_BUFFER_DISTANCE_FT toy_deps | Some ft \<Rightarrow> ft) 0.3048"
    and m': "(7.62 :: real) = float_mul toy_deps (case None of
              None \<Rightarrow> DEFAULT_BUFFER_DISTANCE_FT toy_deps | Some ft \<Rightarrow> ft) 0.3048"
    by (simp_all add: toy_deps_def)
  have same: "\<forall>g. toy_buffer_only_at 3.048 g 3.048 = buffer toy_engine g 3.048"
    and same': "\<forall>g. toy_buffer_only_at 7.62 g 7.62 = buffer toy_engine g 7.62"
    by (simp_all add: toy_buffer_only_at_def)
  have run: "create_buffer_with_geopandas toy_engine toy_deps ?fs ''gas_lines.shp'' (Some 10) None False
             = Inr ex_buffers"
    and run': "create_buffer_with_geopandas toy_engine toy_deps ?fs ''gas_lines.shp'' None None True
             = Inr ex_buffers"
    by (simp_all add: model_defs toy_defs ex_defs)
  have feet: "create_buffer_with_geopandas (toy_engine\<lparr>buffer := toy_buffer_only_at 10\<rparr>) toy_deps
                ?fs ''gas_lines.shp'' (Some 10) None False
              = Inr \<lparr>rows = [], crs = Some ''EPSG:32610''\<rparr>"
    by (simp add: model_defs toy_defs ex_defs toy_buffer_only_at_def)
  show ?thesis
    using run run' feet
      buffer_distance_used [where m = "3.048" and D = toy_deps and buffer_distance_ft = "Some 10"
        and b = "toy_buffer_only_at 3.048" and E = toy_engine and fs = ?fs
        and input_gas_lines_path = "''gas_lines.shp''" and parks_path = None
        and use_multiprocessing = False, OF m same]
      buffer_distance_used [where m = "7.62" and D = toy_deps and buffer_distance_ft = None
        and b = "toy_buffer_only_at 7.62" and E = toy_engine and fs = ?fs
        and input_gas_lines_path = "''gas_lines.shp''" and parks_path = None
        and use_multiprocessing = True, OF m' same']
    by simp
qed

subsection \<open>Subtracting nothing\<close>

lemma subtract_nothing_geom: "subtract_park_from_geom E geom [] = geom"
  by (cases geom) (simp_all add: subtract_park_from_geom_def)

text \<open>Lines 176 to 200 when no exclusion geometry is left: repair and filter only.\<close>

lemma subtract_empty_parks_general:
  assumes "read_file fs p = Inr parks_gdf"
    and "gdf_empty (prepare_parks E D (validate_and_reproject_crs E D parks_gdf (crs buffer_gdf)))"
  shows "subtract_parks_from_buffer E D fs buffer_gdf (Some p) mp
         = Inr (select (\<lambda>r. row_is_valid E r \<and> \<not> row_is_empty E r)
                  (apply_geometry (fix_geometry D)
                     (log_and_filter_invalid_geometries E
                        (apply_geometry (fix_geometry D) (select notnull buffer_gdf)))))"
proof -
  let ?b = "log_and_filter_invalid_geometries E
              (apply_geometry (fix_geometry D) (select notnull buffer_gdf))"
  have seq: "apply_geometry (\<lambda>geom. subtract_park_from_geom E geom []) ?b = ?b"
    by (rule apply_geometry_fixed) (simp add: subtract_nothing_geom list_all_iff)
  have par: "assign_geometry ?b
               (parallel_process (subtract_park_from_geom_helper E)
                  (map (\<lambda>r. (geometry r, [])) (rows ?b))) = ?b"
  proof -
    have "parallel_process (subtract_park_from_geom_helper E) (map (\<lambda>r. (geometry r, [])) (rows ?b))
          = map geometry (rows ?b)"
      by (simp add: parallel_process_def subtract_park_from_geom_helper_def subtract_nothing_geom
          comp_def)
    then show ?thesis by (simp add: assign_geometry_map)
  qed
  show ?thesis
    using assms seq par
    by (simp add: subtract_parks_from_buffer_def Let_def gdf_empty_def)
qed

text \<open>
  Claim C5, as stated, fails: with an exclusion dataset that has no rows, a buffer row
  with a null geometry is dropped, so the rows returned are not the input rows.
\<close>

theorem subtract_empty_parks_counterexample:
  "gdf_empty (prepare_parks toy_engine toy_deps
      (validate_and_reproject_crs toy_engine toy_deps ex_no_rows (crs ex_null_buffer))) \<and>
   subtract_parks_from_buffer toy_engine toy_deps (toy_fs [(''parks.shp'', ex_no_rows)])
       ex_null_buffer (Some ''parks.shp'') False
     = Inr \<lparr>rows = [], crs = Some ''EPSG:32610''\<rparr>
   \<and> rows ex_null_buffer \<noteq> []"
  by (simp add: model_defs toy_defs ex_defs)

text \<open>
  Claim C5, amended. With no exclusion path, \<open>subtract_parks_from_buffer\<close> returns the
  input buffer layer unchanged. With an exclusion dataset that has no valid Polygon or
  MultiPolygon geometry after filtering, it returns the input buffer layer unchanged
  provided every input row has a non-null, valid, non-empty geometry that
  \<open>fix_geometry\<close> leaves as it is; other rows are repaired or dropped
  (\<open>subtract_empty_parks_general\<close>).
\<close>

theorem subtract_nothing_identity:
  "subtract_parks_from_buffer E D fs buffer_gdf None mp = Inr buffer_gdf \<and>
   (read_file fs p = Inr parks_gdf \<and>
    gdf_empty (prepare_parks E D (validate_and_reproject_crs E D parks_gdf (crs buffer_gdf))) \<and>
    list_all (\<lambda>r. notnull r \<and> row_is_valid E r \<and> \<not> row_is_empty E r \<and>
                   fix_geometry D (geometry r) = geometry r) (rows buffer_gdf)
    \<longrightarrow> subtract_parks_from_buffer E D fs buffer_gdf (Some p) mp = Inr buffer_gdf)"
proof (intro conjI impI)
  show "subtract_parks_from_buffer E D fs buffer_gdf None mp = Inr buffer_gdf"
    by (simp add: subtract_parks_from_buffer_def)
next
  assume a: "read_file fs p = Inr parks_gdf \<and>
    gdf_empty (prepare_parks E D (validate_and_reproject_crs E D parks_gdf (crs buffer_gdf))) \<and>
    list_all (\<lambda>r. notnull r \<and> row_is_valid E r \<and> \<not> row_is_empty E r \<and>
                   fix_geometry D (geometry r) = geometry r) (rows buffer_gdf)"
  then have good: "list_all (\<lambda>r. notnull r \<and> row_is_valid E r \<and> \<not> row_is_empty E r \<and>
                   fix_geometry D (geometry r) = geometry r) (rows buffer_gdf)" by simp
  have 1: "select notnull buffer_gdf = buffer_gdf"
    using good by (intro select_all) (simp add: list_all_iff)
  have 2: "apply_geometry (fix_geometry D) buffer_gdf = buffer_gdf"
    using good by (intro apply_geometry_fixed) (simp add: list_all_iff)
  have 3: "log_and_filter_invalid_geometries E buffer_gdf = buffer_gdf"
    unfolding log_and_filter_invalid_geometries_def
    using good by (intro select_all) (simp add: list_all_iff)
  have 4: "select (\<lambda>r. row_is_valid E r \<and> \<not> row_is_empty E r) buffer_gdf = buffer_gdf"
    using good by (intro select_all) (simp add: list_all_iff)
  show "subtract_parks_from_buffer E D fs buffer_gdf (Some p) mp = Inr buffer_gdf"
    using a subtract_empty_parks_general [of fs p parks_gdf E D buffer_gdf mp]
    by (simp add: 1 2 3 4)
qed

theorem subtract_nothing_identity_witness:
  "read_file (toy_fs [(''parks.shp'', ex_no_rows)]) ''parks.shp'' = Inr ex_no_rows \<and>
   subtract_parks_from_buffer toy_engine toy_deps (toy_fs [(''parks.shp'', ex_no_rows)])
       ex_buffers None False = Inr ex_buffers \<and>
   subtract_parks_from_buffer toy_engine toy_deps (toy_fs [(''parks.shp'', ex_no_rows)])
       ex_buffers (Some ''parks.shp'') False = Inr ex_buffers"
proof -
  let ?fs = "toy_fs [(''parks.shp'', ex_no_rows)]"
  have r: "read_file ?fs ''parks.shp'' = Inr ex_no_rows"
    by (simp add: read_file_def toy_fs_def)
  have e: "gdf_empty (prepare_parks toy_engine toy_deps
             (validate_and_reproject_crs toy_engine toy_deps ex_no_rows (crs ex_buffers)))"
    by (simp add: model_defs toy_defs ex_defs)
  have g: "list_all (\<lambda>r. notnull r \<and> row_is_valid toy_engine r \<and> \<not> row_is_empty toy_engine r \<and>
                   fix_geometry toy_deps (geometry r) = geometry r) (rows ex_buffers)"
    by (simp add: model_defs toy_defs ex_defs)
  show ?thesis
    using r e g
      subtract_nothing_identity [of toy_engine toy_deps ?fs ex_buffers False "''parks.shp''" ex_no_rows]
    by simp
qed

subsection \<open>Merging: the CRS of the two layers\<close>

lemma crs_reproject: "crs (reproject E s t df) = (if s = t then crs df else Some t)"
  by (simp add: reproject_def)

lemma length_rows_reproject: "length (rows (reproject E s t df)) = length (rows df)"
  by (simp add: reproject_def)

lemma kinds_reproject:
  "kind_preserving E \<Longrightarrow>
   map (geom_type_of E) (rows (reproject E s t df)) = map (geom_type_of E) (rows df)"
  by (simp add: reproject_def geom_type_of_def kind_preserving_def option.map_comp comp_def)

text \<open>What \<open>validate_and_reproject_crs\<close> and \<open>ensure_projected_crs\<close> keep.\<close>

lemma validate_facts:
  "crs (validate_and_reproject_crs E D df (Some t)) = Some t"
  "length (rows (validate_and_reproject_crs E D df tgt)) = length (rows df)"
  "kind_preserving E \<Longrightarrow>
     map (geom_type_of E) (rows (validate_and_reproject_crs E D df tgt))
     = map (geom_type_of E) (rows df)"
  by (simp_all add: validate_and_reproject_crs_def Let_def crs_reproject set_crs_def
      length_rows_reproject kinds_reproject split: option.splits)

lemma ensure_facts:
  "crs df = Some c \<Longrightarrow> \<exists>c'. crs (ensure_projected_crs E D df) = Some c'"
  "length (rows (ensure_projected_crs E D df)) = length (rows df)"
  "kind_preserving E \<Longrightarrow>
     map (geom_type_of E) (rows (ensure_projected_crs E D df)) = map (geom_type_of E) (rows df)"
  by (simp_all add: ensure_projected_crs_def crs_reproject length_rows_reproject kinds_reproject
      split: option.splits)

text \<open>
  Lines 264 to 296 never raise: they leave both layers in one CRS, with their rows in
  place and, when reprojection keeps the kind of a geometry, with the kinds they had.
\<close>

lemma merge_resolve_crs_ok:
  "\<exists>b f pc. merge_resolve_crs E D b0 f0 = Inr (b, f) \<and> crs b = Some pc \<and> crs f = Some pc \<and>
     length (rows b) = length (rows b0) \<and> length (rows f) = length (rows f0) \<and>
     (kind_preserving E \<longrightarrow>
        map (geom_type_of E) (rows b) = map (geom_type_of E) (rows b0) \<and>
        map (geom_type_of E) (rows f) = map (geom_type_of E) (rows f0))"
proof -
  define f1 where "f1 = (if crs f0 = None \<or> crs f0 = Some [] then set_crs (GEOGRAPHIC_CRS D) f0 else f0)"
  define b1 where "b1 = (if crs b0 = None then set_crs (BUFFER_LAYER_CRS D) b0 else b0)"
  define b2 where "b2 = validate_and_reproject_crs E D b1 (crs f1)"
  define b3 where "b3 = ensure_projected_crs E D b2"
  define f2 where "f2 = ensure_projected_crs E D f1"
  have "\<exists>c1. crs f1 = Some c1"
    by (cases "crs f0") (auto simp: f1_def set_crs_def)
  then obtain c1 where c1: "crs f1 = Some c1" ..
  have rf1: "rows f1 = rows f0" and rb1: "rows b1 = rows b0"
    by (simp_all add: f1_def b1_def set_crs_def)
  have "crs b2 = Some c1"
    by (simp add: b2_def c1 validate_facts)
  then obtain bc where bc: "crs b3 = Some bc"
    using ensure_facts(1) [of b2 c1 E D] by (auto simp: b3_def)
  obtain pc where pc: "crs f2 = Some pc"
    using ensure_facts(1) [OF c1, of E D] by (auto simp: f2_def)
  have lb: "length (rows b3) = length (rows b0)"
    by (simp add: b3_def b2_def ensure_facts validate_facts rb1)
  have lf: "length (rows f2) = length (rows f0)"
    by (simp add: f2_def ensure_facts rf1)
  have kb: "kind_preserving E \<Longrightarrow> map (geom_type_of E) (rows b3) = map (geom_type_of E) (rows b0)"
    by (simp add: b3_def b2_def ensure_facts validate_facts rb1)
  have kf: "kind_preserving E \<Longrightarrow> map (geom_type_of E) (rows f2) = map (geom_type_of E) (rows f0)"
    by (simp add: f2_def ensure_facts rf1)
  have unfold: "merge_resolve_crs E D b0 f0 =
      (if crs b3 \<noteq> crs f2
       then (case to_crs_opt E (crs f2) b3 of Inl e \<Rightarrow> Inl e | Inr b \<Rightarrow> Inr (b, f2))
       else Inr (b3, f2))"
    unfolding merge_resolve_crs_def Let_def f1_def b1_def b2_def b3_def f2_def ..
  show ?thesis
  proof (cases "bc = pc")
    case True
    then have "merge_resolve_crs E D b0 f0 = Inr (b3, f2)"
      by (simp add: unfold bc pc)
    then show ?thesis
      using True bc pc lb lf kb kf by simp
  next
    case False
    then have "merge_resolve_crs E D b0 f0 = Inr (reproject E bc pc b3, f2)"
      by (simp add: unfold bc pc to_crs_opt_def to_crs_def)
    moreover have "crs (reproject E bc pc b3) = Some pc"
      using False by (simp add: crs_reproject)
    ultimately show ?thesis
      using pc lb lf kb kf by (simp add: length_rows_reproject kinds_reproject)
  qed
qed


subsection \<open>Merging: hard schema errors\<close>

lemma list_all_kinds:
  "list_all (\<lambda>r. isin (geom_type_of E r) names) rs
   = list_all (\<lambda>k. isin k names) (map (geom_type_of E) rs)"
  by (simp add: list_all_iff)

lemma harmonize_mixed:
  assumes "rows f \<noteq> []" and "1 < length (unique (map (geom_type_of E) (rows f)))"
  shows "harmonize_planning E d f = Inl (ValueError ''Future Development shapefile has mixed geometry types'')"
  using assms by (auto simp: harmonize_planning_def gdf_empty_def Let_def split: list.splits)

lemma harmonize_unsupported:
  assumes "unique (map (geom_type_of E) (rows f)) = [t]"
    and "\<not> isin t [''Polygon'', ''MultiPolygon'', ''Point'', ''LineString'']"
  shows "harmonize_planning E d f
         = Inl (ValueError ''Unsupported Future Development geometry type for conversion.'')"
proof -
  have ne: "rows f \<noteq> []"
    using assms(1) by (auto simp: unique_def)
  have "\<not> isin t polygon_types" and "\<not> isin t [''Point'', ''LineString'']"
    using assms(2) by (auto simp: isin_def polygon_types_def split: option.splits)
  then show ?thesis
    using ne assms(1) by (simp add: harmonize_planning_def gdf_empty_def Let_def)
qed

lemma kind_preserving_toy: "kind_preserving toy_engine"
  by (simp add: kind_preserving_def toy_engine_def split: toy.splits)

text \<open>
  Claim C3, as stated, fails: with an empty buffer layer the function returns at line
  253, before any check of the geometry kinds, so a planning layer with a Polygon row
  and a LineString row is returned without an error.
\<close>

theorem merge_empty_buffer_mixed_planning_counterexample:
  "1 < length (unique (map (geom_type_of toy_engine) (rows ex_mixed_planning))) \<and>
   merge_buffers_into_planning_file toy_engine toy_deps
      (toy_fs [(''buffer.shp'', ex_no_rows), (''planning.shp'', ex_mixed_planning)])
      ''buffer.shp'' ''planning.shp'' 10 None
   = (Inr ex_mixed_planning,
      toy_fs [(''buffer.shp'', ex_no_rows), (''planning.shp'', ex_mixed_planning)])"
  by (simp add: model_defs toy_defs ex_defs)

text \<open>
  Claim C3, amended. When both layers can be read, the buffer layer is not empty and
  reprojection keeps the kind of a geometry, \<open>merge_buffers_into_planning_file\<close>
  raises a \<open>ValueError\<close> and leaves the file system as it was whenever the buffer
  layer has a geometry that is not Polygon or MultiPolygon (a null geometry included),
  or the non-empty planning layer has more than one distinct geometry kind, or its one
  kind is neither Polygon, MultiPolygon, Point nor LineString.
\<close>

theorem merge_rejects_bad_kinds:
  assumes rb: "read_file fs unique_output_buffer = Inr buffer_gdf"
    and rf: "read_file fs future_development_feature_class = Inr future_dev_gdf"
    and nb: "\<not> gdf_empty buffer_gdf"
    and kp: "kind_preserving E"
    and bad: "\<not> list_all (\<lambda>r. isin (geom_type_of E r) polygon_types) (rows buffer_gdf)
              \<or> (\<not> gdf_empty future_dev_gdf \<and>
                  1 < length (unique (map (geom_type_of E) (rows future_dev_gdf))))
              \<or> (\<exists>t. unique (map (geom_type_of E) (rows future_dev_gdf)) = [t] \<and>
                      \<not> isin t [''Polygon'', ''MultiPolygon'', ''Point'', ''LineString''])"
  shows "\<exists>msg. merge_buffers_into_planning_file E D fs unique_output_buffer
                  future_development_feature_class point_buffer_distance output_crs
               = (Inl (ValueError msg), fs)"
proof -
  obtain b f where res: "merge_resolve_crs E D buffer_gdf future_dev_gdf = Inr (b, f)"
    and lf: "length (rows f) = length (rows future_dev_gdf)"
    and kb: "map (geom_type_of E) (rows b) = map (geom_type_of E) (rows buffer_gdf)"
    and kf: "map (geom_type_of E) (rows f) = map (geom_type_of E) (rows future_dev_gdf)"
    using merge_resolve_crs_ok [of E D buffer_gdf future_dev_gdf] kp by blast
  have pb: "list_all (\<lambda>r. isin (geom_type_of E r) polygon_types) (rows b)
            = list_all (\<lambda>r. isin (geom_type_of E r) polygon_types) (rows buffer_gdf)"
    by (simp only: list_all_kinds kb)
  show ?thesis
  proof (cases "list_all (\<lambda>r. isin (geom_type_of E r) polygon_types) (rows buffer_gdf)")
    case False
    then show ?thesis
      using rb rf nb res pb by (simp add: merge_buffers_into_planning_file_def)
  next
    case True
    have "\<exists>msg. harmonize_planning E point_buffer_distance f = Inl (ValueError msg)"
    proof -
      from bad True consider
        (mixed) "\<not> gdf_empty future_dev_gdf"
                "1 < length (unique (map (geom_type_of E) (rows future_dev_gdf)))"
        | (unsupported) t where "unique (map (geom_type_of E) (rows future_dev_gdf)) = [t]"
                "\<not> isin t [''Polygon'', ''MultiPolygon'', ''Point'', ''LineString'']"
        by blast
      then show ?thesis
      proof cases
        case mixed
        then have "rows f \<noteq> []"
          using lf by (auto simp: gdf_empty_def)
        then show ?thesis
          using harmonize_mixed [of f E point_buffer_distance] mixed(2) kf by simp
      next
        case unsupported
        then show ?thesis
          using harmonize_unsupported [of E f t point_buffer_distance] kf by simp
      qed
    qed
    then show ?thesis
      using rb rf nb res pb True by (auto simp: merge_buffers_into_planning_file_def)
  qed
qed


theorem merge_rejects_bad_kinds_witness:
  "kind_preserving toy_engine \<and> \<not> gdf_empty ex_buffers \<and>
   1 < length (unique (map (geom_type_of toy_engine) (rows ex_mixed_planning))) \<and>
   merge_buffers_into_planning_file toy_engine toy_deps
      (toy_fs [(''buffer.shp'', ex_buffers), (''planning.shp'', ex_mixed_planning)])
      ''buffer.shp'' ''planning.shp'' 10 None
   = (Inl (ValueError ''Future Development shapefile has mixed geometry types''),
      toy_fs [(''buffer.shp'', ex_buffers), (''planning.shp'', ex_mixed_planning)]) \<and>
   \<not> list_all (\<lambda>r. isin (geom_type_of toy_engine r) polygon_types) (rows ex_gas_lines) \<and>
   merge_buffers_into_planning_file toy_engine toy_deps
      (toy_fs [(''buffer.shp'', ex_gas_lines), (''planning.shp'', ex_planning)])
      ''buffer.shp'' ''planning.shp'' 10 None
   = (Inl (ValueError ''Buffer shapefile must contain only polygon or multipolygon geometries.''),
      toy_fs [(''buffer.shp'', ex_gas_lines), (''planning.shp'', ex_planning)])"
proof -
  let ?fs = "toy_fs [(''buffer.shp'', ex_buffers), (''planning.shp'', ex_mixed_planning)]"
  let ?fs' = "toy_fs [(''buffer.shp'', ex_gas_lines), (''planning.shp'', ex_planning)]"
  have rb: "read_file ?fs ''buffer.shp'' = Inr ex_buffers"
    and rf: "read_file ?fs ''planning.shp'' = Inr ex_mixed_planning"
    and rb': "read_file ?fs' ''buffer.shp'' = Inr ex_gas_lines"
    and rf': "read_file ?fs' ''planning.shp'' = Inr ex_planning"
    by (simp_all add: read_file_def toy_fs_def)
  have nb: "\<not> gdf_empty ex_buffers" and nb': "\<not> gdf_empty ex_gas_lines"
    by (simp_all add: gdf_empty_def ex_defs)
  have mixed: "\<not> gdf_empty ex_mixed_planning \<and>
               1 < length (unique (map (geom_type_of toy_engine) (rows ex_mixed_planning)))"
    by (simp add: model_defs toy_defs ex_defs)
  have lines: "\<not> list_all (\<lambda>r. isin (geom_type_of toy_engine r) polygon_types) (rows ex_gas_lines)"
    by (simp add: model_defs toy_defs ex_defs)
  have m1: "merge_buffers_into_planning_file toy_engine toy_deps ?fs ''buffer.shp'' ''planning.shp'' 10 None
        = (Inl (ValueError ''Future Development shapefile has mixed geometry types''), ?fs)"
    by (simp add: model_defs toy_defs ex_defs)
  have m2: "merge_buffers_into_planning_file toy_engine toy_deps ?fs' ''buffer.shp'' ''planning.shp'' 10 None
        = (Inl (ValueError ''Buffer shapefile must contain only polygon or multipolygon geometries.''), ?fs')"
    by (simp add: model_defs toy_defs ex_defs)
  show ?thesis
    using kind_preserving_toy nb mixed lines m1 m2
      merge_rejects_bad_kinds [OF rb rf nb kind_preserving_toy, of toy_deps 10 None]
      merge_rejects_bad_kinds [OF rb' rf' nb' kind_preserving_toy, of toy_deps 10 None]
    by simp
qed

subsection \<open>Merging: the output CRS and the result\<close>

lemma crs_clean_layer: "crs (clean_layer E D df) = crs df"
  by (simp add: clean_layer_def select_def apply_geometry_def)

lemma rows_clean_layer_empty: "rows df = [] \<Longrightarrow> rows (clean_layer E D df) = []"
  by (simp add: clean_layer_def select_def apply_geometry_def)

lemma harmonize_keeps:
  assumes "harmonize_planning E d f = Inr p"
  shows "crs p = crs f" and "rows f = [] \<Longrightarrow> rows p = []"
  using assms
  by (auto simp: harmonize_planning_def gdf_empty_def Let_def assign_geometry_def to_crs_def
      split: if_splits list.splits option.splits sum.splits)

lemma pd_concat_two:
  assumes "\<not> gdf_empty a \<or> \<not> gdf_empty b"
  shows "pd_concat (filter (\<lambda>df. \<not> gdf_empty df) [a, b]) = Inr (rows a @ rows b)"
  using assms by (auto simp: pd_concat_def gdf_empty_def)

text \<open>
  Lines 344 to 367 on two cleaned layers that share the CRS \<open>pc\<close> and are not both
  empty: the rows of the planning layer, then those of the buffer layer, reprojected
  from \<open>pc\<close> to the output CRS, are written and returned.
\<close>

lemma merge_and_write_ok:
  assumes cp: "crs planning = Some pc" and cb: "crs buffer_gdf = Some pc"
    and surv: "\<not> gdf_empty planning \<or> \<not> gdf_empty buffer_gdf"
    and drv: "get_driver_from_extension D target = Some driver"
    and wr: "\<not> unwritable fs target"
    and out: "out = (case output_crs of Some c \<Rightarrow> c | None \<Rightarrow> pc)"
    and merged: "merged = reproject E pc out \<lparr>rows = rows planning @ rows buffer_gdf, crs = Some pc\<rparr>"
  shows "merge_and_write E D fs target output_crs planning buffer_gdf
         = (Inr merged, fs\<lparr>files := (files fs)(target := Some merged),
                           write_log := write_log fs @ [(target, driver)]\<rparr>)"
proof -
  have r: "resolve_output_crs output_crs buffer_gdf planning = Some out"
    using cp cb out by (simp add: resolve_output_crs_def split: option.splits)
  have ne: "\<not> gdf_empty merged"
    using surv by (auto simp: merged gdf_empty_def reproject_def)
  show ?thesis
    using pd_concat_two [OF surv] r ne drv wr cp
    by (simp add: merge_and_write_def Let_def to_crs_opt_def to_crs_def to_file_def merged)
qed

text \<open>
  Claim C7, as stated, fails in its last part: for an empty planning layer and a buffer
  layer of a valid and an invalid polygon, the result holds the valid row only, so it is
  not the buffer layer reprojected to the output CRS.
\<close>

theorem merge_drops_invalid_buffer_counterexample:
  "gdf_empty ex_no_rows \<and> \<not> gdf_empty ex_two_buffers \<and>
   fst (merge_buffers_into_planning_file toy_engine toy_deps
          (toy_fs [(''buffer.shp'', ex_two_buffers), (''planning.shp'', ex_no_rows)])
          ''buffer.shp'' ''planning.shp'' 10 None)
     = Inr ex_buffers \<and>
   ex_buffers \<noteq> reproject toy_engine ''EPSG:32610'' ''EPSG:32610'' ex_two_buffers"
  by (simp add: model_defs toy_defs ex_defs)

text \<open>What the function returns when the caller gives an output CRS.\<close>

lemma pd_concat_rows:
  "pd_concat (filter (\<lambda>df. \<not> gdf_empty df) [a, b]) = Inr rs \<Longrightarrow> rs \<noteq> []"
  by (auto simp: pd_concat_def gdf_empty_def split: if_splits)

lemma merge_and_write_returns:
  assumes "merge_and_write E D fs target (Some oc) planning buffer_gdf = (Inr out, fs')"
  shows "crs out = Some oc \<and> \<not> gdf_empty out \<and> files fs' target = Some out"
proof -
  obtain rs where rs: "pd_concat (filter (\<lambda>df. \<not> gdf_empty df) [planning, buffer_gdf]) = Inr rs"
    using assms by (cases "pd_concat (filter (\<lambda>df. \<not> gdf_empty df) [planning, buffer_gdf])")
      (simp_all add: merge_and_write_def)
  have ne: "rs \<noteq> []"
    using pd_concat_rows [OF rs] .
  obtain src where src: "crs planning = Some src"
    using assms rs
    by (cases "crs planning")
      (simp_all add: merge_and_write_def Let_def resolve_output_crs_def to_crs_opt_def to_crs_def)
  let ?m = "reproject E src oc \<lparr>rows = rs, crs = Some src\<rparr>"
  have cm: "crs ?m = Some oc" and nm: "\<not> gdf_empty ?m"
    using ne by (auto simp: reproject_def gdf_empty_def)
  have "(case get_driver_from_extension D target of
           None \<Rightarrow> (Inl (ValueError ''Unsupported file extension''), fs)
         | Some driver \<Rightarrow>
             (case to_file fs target driver ?m of
                Inl e \<Rightarrow> (Inl e, fs)
              | Inr fs' \<Rightarrow> (Inr ?m, fs'))) = (Inr out, fs')"
    using assms rs src nm
    by (simp add: merge_and_write_def Let_def resolve_output_crs_def to_crs_opt_def to_crs_def)
  then have "out = ?m \<and> files fs' target = Some ?m"
    by (auto simp: to_file_def split: option.splits if_splits)
  then show ?thesis
    using cm nm by simp
qed

lemma merge_returns_in_output_crs:
  assumes rb: "read_file fs unique_output_buffer = Inr buffer0"
    and rf: "read_file fs future_development_feature_class = Inr planning0"
    and nb: "\<not> gdf_empty buffer0"
    and ret: "merge_buffers_into_planning_file E D fs unique_output_buffer
                future_development_feature_class point_buffer_distance (Some oc) = (Inr out, fs')"
  shows "crs out = Some oc \<and> \<not> gdf_empty out \<and> files fs' future_development_feature_class = Some out"
proof -
  obtain b f where res: "merge_resolve_crs E D buffer0 planning0 = Inr (b, f)"
    using merge_resolve_crs_ok [of E D buffer0 planning0] by blast
  have poly: "list_all (\<lambda>r. isin (geom_type_of E r) polygon_types) (rows b)"
  proof (rule ccontr)
    assume "\<not> list_all (\<lambda>r. isin (geom_type_of E r) polygon_types) (rows b)"
    then have "fst (merge_buffers_into_planning_file E D fs unique_output_buffer
                      future_development_feature_class point_buffer_distance (Some oc))
               = Inl (ValueError
                        ''Buffer shapefile must contain only polygon or multipolygon geometries.'')"
      using rb rf nb res by (simp add: merge_buffers_into_planning_file_def)
    with ret show False by simp
  qed
  obtain p where harm: "harmonize_planning E point_buffer_distance f = Inr p"
    using ret rb rf nb res poly
    by (cases "harmonize_planning E point_buffer_distance f")
      (simp_all add: merge_buffers_into_planning_file_def)
  have "merge_and_write E D fs future_development_feature_class (Some oc)
          (clean_layer E D p) (clean_layer E D b) = (Inr out, fs')"
    using ret rb rf nb res poly harm by (simp add: merge_buffers_into_planning_file_def)
  then show ?thesis
    by (rule merge_and_write_returns)
qed

lemma set_crs_same: "crs df = Some c \<Longrightarrow> set_crs c df = df"
  by (cases df) (simp add: set_crs_def)

lemma merge_resolve_crs_projected:
  assumes cp: "crs planning0 = Some pc" and pcne: "pc \<noteq> []" and proj: "\<not> is_geographic E pc"
    and cb: "crs buffer0 = Some bc"
  shows "merge_resolve_crs E D buffer0 planning0 = Inr (reproject E bc pc buffer0, planning0)"
proof -
  have b2: "validate_and_reproject_crs E D buffer0 (Some pc) = reproject E bc pc buffer0"
    by (simp add: validate_and_reproject_crs_def cb set_crs_same)
  have c2: "crs (reproject E bc pc buffer0) = Some pc"
    using cb by (simp add: crs_reproject)
  have b3: "ensure_projected_crs E D (reproject E bc pc buffer0) = reproject E bc pc buffer0"
    using c2 proj by (simp add: ensure_projected_crs_def)
  have f2: "ensure_projected_crs E D planning0 = planning0"
    using cp proj by (simp add: ensure_projected_crs_def)
  show ?thesis
    using cp pcne cb by (simp add: merge_resolve_crs_def b2 b3 f2 c2)
qed

lemma remdups_uniform: "xs \<noteq> [] \<Longrightarrow> \<forall>x\<in>set xs. x = k \<Longrightarrow> remdups xs = [k]"
proof (induction xs)
  case Nil
  then show ?case by simp
next
  case (Cons a xs)
  show ?case
  proof (cases "xs = []")
    case True
    then show ?thesis using Cons.prems by simp
  next
    case False
    then have "remdups xs = [k]" using Cons by simp
    moreover have "a \<in> set xs" using False Cons.prems by (cases xs) auto
    ultimately show ?thesis by simp
  qed
qed

lemma unique_uniform: "xs \<noteq> [] \<Longrightarrow> \<forall>x\<in>set xs. x = k \<Longrightarrow> unique xs = [k]"
  using remdups_uniform [of "rev xs" k] by (simp add: unique_def)

lemma harmonize_polygons:
  assumes k: "k \<in> set polygon_types" and all: "\<forall>r\<in>set (rows f). geom_type_of E r = Some k"
  shows "harmonize_planning E d f = Inr f"
proof (cases "rows f = []")
  case True
  then show ?thesis by (simp add: harmonize_planning_def gdf_empty_def)
next
  case False
  have "unique (map (geom_type_of E) (rows f)) = [Some k]"
    using False all by (intro unique_uniform) auto
  then show ?thesis
    using False k by (simp add: harmonize_planning_def gdf_empty_def Let_def isin_def)
qed

text \<open>
  Claim C7, amended. Let the buffer layer read be not empty and the caller give an
  output CRS. Then whatever the function returns is in that CRS, is not empty and is
  what the planning file holds afterwards. Moreover, when the planning layer is in a
  projected CRS \<open>pc\<close> and the buffer layer in a CRS \<open>bc\<close>, the buffer layer is
  polygonal, the planning layer is empty or of one polygonal kind, some row survives
  the cleaning of lines 329 to 342 and the file can be written, the function returns
  the cleaned rows of the planning layer followed by the cleaned rows of the buffer
  layer brought from \<open>bc\<close> to \<open>pc\<close>, all reprojected from \<open>pc\<close> to the output CRS, and
  writes them to the planning file; for an empty planning layer this is the buffer
  layer, brought to \<open>pc\<close> and cleaned, reprojected to the output CRS. Reprojection is
  taken to keep the kind of a geometry. The CRS chosen when the caller gives none is
  not part of the statement.
\<close>

theorem merge_output_crs_given:
  assumes rb: "read_file fs unique_output_buffer = Inr buffer0"
    and rf: "read_file fs future_development_feature_class = Inr planning0"
    and nb: "\<not> gdf_empty buffer0"
  shows "(\<forall>out fs'.
            merge_buffers_into_planning_file E D fs unique_output_buffer
                future_development_feature_class point_buffer_distance (Some oc) = (Inr out, fs')
            \<longrightarrow> crs out = Some oc \<and> \<not> gdf_empty out \<and>
                files fs' future_development_feature_class = Some out) \<and>
         (crs planning0 = Some pc \<and> pc \<noteq> [] \<and> \<not> is_geographic E pc \<and> crs buffer0 = Some bc \<and>
          kind_preserving E \<and>
          list_all (\<lambda>r. isin (geom_type_of E r) polygon_types) (rows buffer0) \<and>
          k \<in> set polygon_types \<and> (\<forall>r\<in>set (rows planning0). geom_type_of E r = Some k) \<and>
          (\<not> gdf_empty (clean_layer E D planning0) \<or>
           \<not> gdf_empty (clean_layer E D (reproject E bc pc buffer0))) \<and>
          get_driver_from_extension D future_development_feature_class = Some driver \<and>
          \<not> unwritable fs future_development_feature_class \<and>
          merged = reproject E pc oc
                     \<lparr>rows = rows (clean_layer E D planning0) @
                             rows (clean_layer E D (reproject E bc pc buffer0)),
                      crs = Some pc\<rparr>
          \<longrightarrow> merge_buffers_into_planning_file E D fs unique_output_buffer
                  future_development_feature_class point_buffer_distance (Some oc)
                = (Inr merged,
                   fs\<lparr>files := (files fs)(future_development_feature_class := Some merged),
                      write_log := write_log fs @ [(future_development_feature_class, driver)]\<rparr>) \<and>
              (gdf_empty planning0 \<longrightarrow>
                 merged = reproject E pc oc (clean_layer E D (reproject E bc pc buffer0))))"
proof (intro conjI allI impI)
  fix out fs'
  assume "merge_buffers_into_planning_file E D fs unique_output_buffer
            future_development_feature_class point_buffer_distance (Some oc) = (Inr out, fs')"
  from merge_returns_in_output_crs [OF rb rf nb this]
  show "crs out = Some oc" and "\<not> gdf_empty out"
    and "files fs' future_development_feature_class = Some out"
    by simp_all
next
  assume h: "crs planning0 = Some pc \<and> pc \<noteq> [] \<and> \<not> is_geographic E pc \<and> crs buffer0 = Some bc \<and>
          kind_preserving E \<and>
          list_all (\<lambda>r. isin (geom_type_of E r) polygon_types) (rows buffer0) \<and>
          k \<in> set polygon_types \<and> (\<forall>r\<in>set (rows planning0). geom_type_of E r = Some k) \<and>
          (\<not> gdf_empty (clean_layer E D planning0) \<or>
           \<not> gdf_empty (clean_layer E D (reproject E bc pc buffer0))) \<and>
          get_driver_from_extension D future_development_feature_class = Some driver \<and>
          \<not> unwritable fs future_development_feature_class \<and>
          merged = reproject E pc oc
                     \<lparr>rows = rows (clean_layer E D planning0) @
                             rows (clean_layer E D (reproject E bc pc buffer0)),
                      crs = Some pc\<rparr>"
  let ?b = "reproject E bc pc buffer0"
  have res: "merge_resolve_crs E D buffer0 planning0 = Inr (?b, planning0)"
    using h by (intro merge_resolve_crs_projected) simp_all
  have poly: "list_all (\<lambda>r. isin (geom_type_of E r) polygon_types) (rows ?b)"
    using h by (simp add: list_all_kinds kinds_reproject)
  have harm: "harmonize_planning E point_buffer_distance planning0 = Inr planning0"
    using h by (intro harmonize_polygons [where k = k]) simp_all
  have cbp: "crs ?b = Some pc"
    using h by (simp add: crs_reproject)
  have mw: "merge_and_write E D fs future_development_feature_class (Some oc)
              (clean_layer E D planning0) (clean_layer E D ?b)
            = (Inr merged,
               fs\<lparr>files := (files fs)(future_development_feature_class := Some merged),
                  write_log := write_log fs @ [(future_development_feature_class, driver)]\<rparr>)"
    using h
    by (intro merge_and_write_ok [where pc = pc and out = oc])
       (simp_all add: crs_clean_layer cbp)
  show "merge_buffers_into_planning_file E D fs unique_output_buffer
                  future_development_feature_class point_buffer_distance (Some oc)
                = (Inr merged,
                   fs\<lparr>files := (files fs)(future_development_feature_class := Some merged),
                      write_log := write_log fs @ [(future_development_feature_class, driver)]\<rparr>)"
    using rb rf nb res poly harm mw by (simp add: merge_buffers_into_planning_file_def)
  show "merged = reproject E pc oc (clean_layer E D ?b)" if "gdf_empty planning0"
  proof -
    have "rows (clean_layer E D planning0) = []"
      using that by (simp add: rows_clean_layer_empty gdf_empty_def)
    moreover have "\<lparr>rows = rows (clean_layer E D ?b), crs = Some pc\<rparr> = clean_layer E D ?b"
      using cbp by (simp add: crs_clean_layer)
    ultimately show ?thesis
      using h by simp
  qed
qed

text \<open>
  On the toy engine: buffers in EPSG:4326 merged into an empty planning layer in
  EPSG:32610 and asked for in EPSG:3857, and buffers merged into a planning layer of
  one lot and asked for in EPSG:4326.
\<close>

theorem merge_output_crs_given_witness:
  "\<not> gdf_empty ex_buffers_4326 \<and> gdf_empty ex_no_rows \<and>
   merge_buffers_into_planning_file toy_engine toy_deps
      (toy_fs [(''buffer.shp'', ex_buffers_4326), (''planning.shp'', ex_no_rows)])
      ''buffer.shp'' ''planning.shp'' 10 (Some ''EPSG:3857'')
   = (Inr ex_buffers_3857,
      (toy_fs [(''buffer.shp'', ex_buffers_4326), (''planning.shp'', ex_no_rows)])
        \<lparr>files := (files (toy_fs [(''buffer.shp'', ex_buffers_4326), (''planning.shp'', ex_no_rows)]))
                    (''planning.shp'' := Some ex_buffers_3857),
         write_log := [(''planning.shp'', ''ESRI Shapefile'')]\<rparr>) \<and>
   merge_buffers_into_planning_file toy_engine toy_deps
      (toy_fs [(''buffer.shp'', ex_buffers), (''planning.shp'', ex_planning)])
      ''buffer.shp'' ''planning.shp'' 10 (Some ''EPSG:4326'')
   = (Inr ex_merged_4326,
      (toy_fs [(''buffer.shp'', ex_buffers), (''planning.shp'', ex_planning)])
        \<lparr>files := (files (toy_fs [(''buffer.shp'', ex_buffers), (''planning.shp'', ex_planning)]))
                    (''planning.shp'' := Some ex_merged_4326),
         write_log := [(''planning.shp'', ''ESRI Shapefile'')]\<rparr>)"
proof -
  let ?fs = "toy_fs [(''buffer.shp'', ex_buffers_4326), (''planning.shp'', ex_no_rows)]"
  let ?fs' = "toy_fs [(''buffer.shp'', ex_buffers), (''planning.shp'', ex_planning)]"
  have rb: "read_file ?fs ''buffer.shp'' = Inr ex_buffers_4326"
    and rf: "read_file ?fs ''planning.shp'' = Inr ex_no_rows"
    and rb': "read_file ?fs' ''buffer.shp'' = Inr ex_buffers"
    and rf': "read_file ?fs' ''planning.shp'' = Inr ex_planning"
    by (simp_all add: read_file_def toy_fs_def)
  have nb: "\<not> gdf_empty ex_buffers_4326" and nb': "\<not> gdf_empty ex_buffers"
    and pe: "gdf_empty ex_no_rows"
    by (simp_all add: gdf_empty_def ex_defs)
  have m: "reproject toy_engine ''EPSG:32610'' ''EPSG:3857''
             \<lparr>rows = rows (clean_layer toy_engine toy_deps ex_no_rows) @
                     rows (clean_layer toy_engine toy_deps
                             (reproject toy_engine ''EPSG:4326'' ''EPSG:32610'' ex_buffers_4326)),
              crs = Some ''EPSG:32610''\<rparr>
           = ex_buffers_3857"
    and m': "reproject toy_engine ''EPSG:32610'' ''EPSG:4326''
             \<lparr>rows = rows (clean_layer toy_engine toy_deps ex_planning) @
                     rows (clean_layer toy_engine toy_deps
                             (reproject toy_engine ''EPSG:32610'' ''EPSG:32610'' ex_buffers)),
              crs = Some ''EPSG:32610''\<rparr>
           = ex_merged_4326"
    by (simp_all add: model_defs toy_defs ex_defs)
  have h: "crs ex_no_rows = Some ''EPSG:32610'' \<and> ''EPSG:32610'' \<noteq> [] \<and>
           \<not> is_geographic toy_engine ''EPSG:32610'' \<and> crs ex_buffers_4326 = Some ''EPSG:4326'' \<and>
           kind_preserving toy_engine \<and>
           list_all (\<lambda>r. isin (geom_type_of toy_engine r) polygon_types) (rows ex_buffers_4326) \<and>
           ''Polygon'' \<in> set polygon_types \<and>
           (\<forall>r\<in>set (rows ex_no_rows). geom_type_of toy_engine r = Some ''Polygon'') \<and>
           (\<not> gdf_empty (clean_layer toy_engine toy_deps ex_no_rows) \<or>
            \<not> gdf_empty (clean_layer toy_engine toy_deps
                           (reproject toy_engine ''EPSG:4326'' ''EPSG:32610'' ex_buffers_4326))) \<and>
           get_driver_from_extension toy_deps ''planning.shp'' = Some ''ESRI Shapefile'' \<and>
           \<not> unwritable ?fs ''planning.shp'' \<and>
           ex_buffers_3857 = reproject toy_engine ''EPSG:32610'' ''EPSG:3857''
             \<lparr>rows = rows (clean_layer toy_engine toy_deps ex_no_rows) @
                     rows (clean_layer toy_engine toy_deps
                             (reproject toy_engine ''EPSG:4326'' ''EPSG:32610'' ex_buffers_4326)),
              crs = Some ''EPSG:32610''\<rparr>"
    using kind_preserving_toy unfolding m by (simp add: model_defs toy_defs ex_defs)
  have h': "crs ex_planning = Some ''EPSG:32610'' \<and> ''EPSG:32610'' \<noteq> [] \<and>
           \<not> is_geographic toy_engine ''EPSG:32610'' \<and> crs ex_buffers = Some ''EPSG:32610'' \<and>
           kind_preserving toy_engine \<and>
           list_all (\<lambda>r. isin (geom_type_of toy_engine r) polygon_types) (rows ex_buffers) \<and>
           ''Polygon'' \<in> set polygon_types \<and>
           (\<forall>r\<in>set (rows ex_planning). geom_type_of toy_engine r = Some ''Polygon'') \<and>
           (\<not> gdf_empty (clean_layer toy_engine toy_deps ex_planning) \<or>
            \<not> gdf_empty (clean_layer toy_engine toy_deps
                           (reproject toy_engine ''EPSG:32610'' ''EPSG:32610'' ex_buffers))) \<and>
           get_driver_from_extension toy_deps ''planning.shp'' = Some ''ESRI Shapefile'' \<and>
           \<not> unwritable ?fs' ''planning.shp'' \<and>
           ex_merged_4326 = reproject toy_engine ''EPSG:32610'' ''EPSG:4326''
             \<lparr>rows = rows (clean_layer toy_engine toy_deps ex_planning) @
                     rows (clean_layer toy_engine toy_deps
                             (reproject toy_engine ''EPSG:32610'' ''EPSG:32610'' ex_buffers)),
              crs = Some ''EPSG:32610''\<rparr>"
    using kind_preserving_toy unfolding m' by (simp add: model_defs toy_defs ex_defs)
  have wl: "write_log ?fs = []" and wl': "write_log ?fs' = []"
    by (simp_all add: toy_fs_def)
  note t = merge_output_crs_given [OF rb rf nb, THEN conjunct2, rule_format, OF h, THEN conjunct1]
    and t' = merge_output_crs_given [OF rb' rf' nb', THEN conjunct2, rule_format, OF h', THEN conjunct1]
  show ?thesis
    using nb pe t [of 10] t' [of 10] wl wl' by simp
qed

text \<open>
  Without an output CRS, line 352 reads the CRS of the buffer layer after lines 282 to
  296 have brought it into the planning layer's projected CRS. With both files in
  EPSG:4326, and with a buffer file in EPSG:3857 and a planning file in EPSG:32610, the
  result is in EPSG:32610.
\<close>

lemma merge_default_crs_examples:
  "fst (merge_buffers_into_planning_file toy_engine toy_deps
          (toy_fs [(''buffer.shp'', ex_buffers_4326), (''planning.shp'', ex_no_rows_4326)])
          ''buffer.shp'' ''planning.shp'' 10 None)
     = Inr ex_buffers \<and>
   fst (merge_buffers_into_planning_file toy_engine toy_deps
          (toy_fs [(''buffer.shp'', ex_buffers_3857), (''planning.shp'', ex_no_rows)])
          ''buffer.shp'' ''planning.shp'' 10 None)
     = Inr ex_buffers \<and>
   crs ex_buffers = Some ''EPSG:32610''"
  by (simp add: model_defs toy_defs ex_defs)

subsection \<open>Merging: nothing left after cleaning\<close>

text \<open>
  When both cleaned layers are empty the list of frames of line 345 is empty, and
  \<open>pd.concat\<close> raises before the test of line 356 is reached.
\<close>

lemma merge_and_write_both_empty:
  assumes "gdf_empty planning" and "gdf_empty buffer_gdf"
  shows "merge_and_write E D fs target output_crs planning buffer_gdf
         = (Inl (ValueError ''No objects to concatenate''), fs)"
  using assms by (simp add: merge_and_write_def pd_concat_def)


text \<open>
  Claim C4 says that a merged dataset that is empty after cleaning is answered by an
  empty GeoDataFrame in the planning layer's CRS, with nothing written. Here the
  planning layer has no rows and the one polygon of the buffer layer is invalid and
  repaired to an empty geometry: nothing is written, but the call raises
  \<open>ValueError\<close> instead of returning.
\<close>

theorem merge_all_rows_dropped:
  "merge_buffers_into_planning_file toy_engine toy_deps
      (toy_fs [(''buffer.shp'', ex_invalid_buffer), (''planning.shp'', ex_no_rows)])
      ''buffer.shp'' ''planning.shp'' 10 None
   = (Inl (ValueError ''No objects to concatenate''),
      toy_fs [(''buffer.shp'', ex_invalid_buffer), (''planning.shp'', ex_no_rows)])"
  by (simp add: model_defs toy_defs ex_defs)


subsection \<open>make\_feature\<close>

text \<open>
  Claim C9, as stated, fails: \<open>make_feature\<close> does not return for every input. A CRS
  string that pyproj does not accept raises \<open>CRSError\<close>, and a material that is no
  string (here a missing value) raises \<open>AttributeError\<close>.
\<close>

theorem make_feature_raises_counterexample:
  "make_feature toy_lib (Str ''main 5'') (Timestamp 1714521600) (Num 120) (Str ''PVC'')
      (Geom (Toy ''Point'' [2] True)) ''bogus''
     = Inl (CRSError ''bogus'') \<and>
   make_feature toy_lib (Str ''main 5'') (Timestamp 1714521600) (Num 120) NaN
      (Geom (Toy ''Point'' [2] True)) ''EPSG:4326''
     = Inl (AttributeError ''lower'')"
  by (simp add: make_feature_def toy_lib_def)

text \<open>
  Claim C9, amended. \<open>make_feature\<close> returns exactly when the material is a string,
  the geometry is a geometry and the CRS string is one that pyproj accepts. What it
  returns then is a table of one row whose columns are \<open>SCHEMA_FIELDS\<close>, that is Name,
  Date, PSI, Material and geometry in this order, with the CRS supplied; the row holds
  the name, the date, the pressure and the geometry as given, and the material as
  \<open>str.lower()\<close> returns it.
\<close>

theorem make_feature_single_row:
  "((\<exists>out. make_feature L name date psi material geom crs_code = Inr out)
      \<longleftrightarrow> (\<exists>g. geom = Geom g) \<and> (\<exists>m. material = Str m) \<and> crs_valid L crs_code) \<and>
   (\<forall>out. make_feature L name date psi material geom crs_code = Inr out \<longrightarrow>
      columns out = SCHEMA_FIELDS \<and>
      columns out = [''Name'', ''Date'', ''PSI'', ''Material'', ''geometry''] \<and>
      (\<exists>m. material = Str m \<and> cells out = [[name, date, psi, Str (str_lower L m), geom]]) \<and>
      frame_crs out = Some crs_code)"
  by (cases geom; cases material) (auto simp: make_feature_def SCHEMA_FIELDS_def)

text \<open>On the toy library: a feature of cast iron in EPSG:4326.\<close>

theorem make_feature_single_row_witness:
  "make_feature toy_lib (Str ''Main 5'') NaT (Num 120) (Str ''Cast Iron'')
      (Geom (Toy ''Point'' [2] True)) ''EPSG:4326''
     = Inr \<lparr>columns = [''Name'', ''Date'', ''PSI'', ''Material'', ''geometry''],
            cells = [[Str ''Main 5'', NaT, Num 120, Str ''cast iron'', Geom (Toy ''Point'' [2] True)]],
            frame_crs = Some ''EPSG:4326''\<rparr>"
proof -
  have v: "crs_valid toy_lib ''EPSG:4326''"
    by (simp add: toy_lib_def)
  have l: "str_lower toy_lib ''Cast Iron'' = ''cast iron''"
    by (simp add: toy_lib_def latin1_lower_def latin1_lower_char_def char_of_def bit_Suc_0_iff)
  obtain out where out: "make_feature toy_lib (Str ''Main 5'') NaT (Num 120) (Str ''Cast Iron'')
      (Geom (Toy ''Point'' [2] True)) ''EPSG:4326'' = Inr out"
    using v make_feature_single_row [of toy_lib "Str ''Main 5''" NaT "Num 120" "Str ''Cast Iron''"
        "Geom (Toy ''Point'' [2] True)" "''EPSG:4326''"]
    by auto
  have "columns out = [''Name'', ''Date'', ''PSI'', ''Material'', ''geometry''] \<and>
        cells out = [[Str ''Main 5'', NaT, Num 120, Str ''cast iron'', Geom (Toy ''Point'' [2] True)]] \<and>
        frame_crs out = Some ''EPSG:4326''"
    using out l make_feature_single_row [of toy_lib "Str ''Main 5''" NaT "Num 120" "Str ''Cast Iron''"
        "Geom (Toy ''Point'' [2] True)" "''EPSG:4326''"]
    by auto
  then show ?thesis
    unfolding out by (cases out) simp
qed

subsection \<open>The loops over the reports\<close>

text \<open>One step of each loop, by the three ways a report can go.\<close>

lemma geojson_loop_skip:
  "n \<in> P \<Longrightarrow> geojson_loop L sr m (P, a) ((n, g) # rs) = geojson_loop L sr m (P, a) rs"
  by simp

lemma geojson_loop_reject:
  "n \<notin> P \<Longrightarrow> missing_fields g \<noteq> {} \<Longrightarrow>
   geojson_loop L sr m (P, a) ((n, g) # rs) = geojson_loop L sr m (insert n P, a) rs"
  by simp

lemma geojson_loop_rows:
  "n \<notin> P \<Longrightarrow> missing_fields g = {} \<Longrightarrow>
   geojson_loop L sr m (P, a) ((n, g) # rs)
   = (case geojson_rows L sr m (columns g) a (cells g) of
        Inl e \<Rightarrow> Inl e
      | Inr a' \<Rightarrow> geojson_loop L sr m (insert n P, a') rs)"
  by simp

lemma txt_loop_skip:
  "n \<in> P \<Longrightarrow> txt_loop L sr m (P, a) ((n, ls) # rs) = txt_loop L sr m (P, a) rs"
  by simp

lemma txt_loop_lines:
  "n \<notin> P \<Longrightarrow>
   txt_loop L sr m (P, a) ((n, ls) # rs)
   = (case txt_lines L sr m a ls of
        Inl e \<Rightarrow> Inl e
      | Inr a' \<Rightarrow> txt_loop L sr m (insert n P, a') rs)"
  by simp

lemma geojson_loop_processed:
  "geojson_loop L sr m (P, a) rs = Inr (P', a') \<Longrightarrow> P' = P \<union> fst ` set rs"
proof (induction rs arbitrary: P a)
  case Nil
  then show ?case by simp
next
  case (Cons r rs)
  obtain n g where r: "r = (n, g)" by (cases r)
  consider (skip) "n \<in> P" | (reject) "n \<notin> P" "missing_fields g \<noteq> {}"
    | (rows) "n \<notin> P" "missing_fields g = {}" by blast
  then show ?case
  proof cases
    case skip
    have "geojson_loop L sr m (P, a) rs = Inr (P', a')"
      using Cons.prems unfolding r geojson_loop_skip [OF skip] .
    from Cons.IH [OF this] skip show ?thesis by (auto simp: r)
  next
    case reject
    have "geojson_loop L sr m (insert n P, a) rs = Inr (P', a')"
      using Cons.prems unfolding r geojson_loop_reject [OF reject] .
    from Cons.IH [OF this] show ?thesis by (auto simp: r)
  next
    case rows
    obtain a1 where "geojson_loop L sr m (insert n P, a1) rs = Inr (P', a')"
      using Cons.prems unfolding r geojson_loop_rows [OF rows] by (auto split: sum.splits)
    from Cons.IH [OF this] show ?thesis by (auto simp: r)
  qed
qed

lemma txt_loop_processed:
  "txt_loop L sr m (P, a) rs = Inr (P', a') \<Longrightarrow> P' = P \<union> fst ` set rs"
proof (induction rs arbitrary: P a)
  case Nil
  then show ?case by simp
next
  case (Cons r rs)
  obtain n ls where r: "r = (n, ls)" by (cases r)
  show ?case
  proof (cases "n \<in> P")
    case True
    have "txt_loop L sr m (P, a) rs = Inr (P', a')"
      using Cons.prems unfolding r txt_loop_skip [OF True] .
    from Cons.IH [OF this] True show ?thesis by (auto simp: r)
  next
    case False
    obtain a1 where "txt_loop L sr m (insert n P, a1) rs = Inr (P', a')"
      using Cons.prems unfolding r txt_loop_lines [OF False] by (auto split: sum.splits)
    from Cons.IH [OF this] show ?thesis by (auto simp: r)
  qed
qed


text \<open>A report whose name is in the set already is skipped: it can as well be absent.\<close>

lemma geojson_loop_skips:
  "n \<in> P \<Longrightarrow>
   geojson_loop L sr m (P, a) rs = geojson_loop L sr m (P, a) (filter (\<lambda>r. fst r \<noteq> n) rs)"
proof (induction rs arbitrary: P a)
  case Nil
  then show ?case by simp
next
  case (Cons r rs)
  obtain k g where r: "r = (k, g)" by (cases r)
  let ?rs' = "filter (\<lambda>r. fst r \<noteq> n) rs"
  have ih: "geojson_loop L sr m (Q, b) rs = geojson_loop L sr m (Q, b) ?rs'" if "n \<in> Q" for Q b
    using Cons.IH that by blast
  show ?case
  proof (cases "k = n")
    case True
    then show ?thesis
      using Cons.prems ih [of P a] by (simp add: r)
  next
    case False
    then have f: "filter (\<lambda>r. fst r \<noteq> n) (r # rs) = (k, g) # ?rs'"
      by (simp add: r)
    consider (skip) "k \<in> P" | (reject) "k \<notin> P" "missing_fields g \<noteq> {}"
      | (rows) "k \<notin> P" "missing_fields g = {}" by blast
    then show ?thesis
    proof cases
      case skip
      show ?thesis
        unfolding f unfolding r geojson_loop_skip [OF skip] using ih [OF Cons.prems] .
    next
      case reject
      show ?thesis
        unfolding f unfolding r geojson_loop_reject [OF reject] using ih [of "insert k P" a] Cons.prems
        by simp
    next
      case rows
      have "geojson_loop L sr m (insert k P, b) rs = geojson_loop L sr m (insert k P, b) ?rs'" for b
        using ih [of "insert k P" b] Cons.prems by simp
      then show ?thesis
        unfolding f unfolding r geojson_loop_rows [OF rows]
        by (cases "geojson_rows L sr m (columns g) a (cells g)") simp_all
    qed
  qed
qed

lemma txt_loop_skips:
  "n \<in> P \<Longrightarrow>
   txt_loop L sr m (P, a) rs = txt_loop L sr m (P, a) (filter (\<lambda>r. fst r \<noteq> n) rs)"
proof (induction rs arbitrary: P a)
  case Nil
  then show ?case by simp
next
  case (Cons r rs)
  obtain k ls where r: "r = (k, ls)" by (cases r)
  let ?rs' = "filter (\<lambda>r. fst r \<noteq> n) rs"
  have ih: "txt_loop L sr m (Q, b) rs = txt_loop L sr m (Q, b) ?rs'" if "n \<in> Q" for Q b
    using Cons.IH that by blast
  show ?case
  proof (cases "k = n")
    case True
    then show ?thesis
      using Cons.prems ih [of P a] by (simp add: r)
  next
    case False
    then have f: "filter (\<lambda>r. fst r \<noteq> n) (r # rs) = (k, ls) # ?rs'"
      by (simp add: r)
    show ?thesis
    proof (cases "k \<in> P")
      case True
      show ?thesis
        unfolding f unfolding r txt_loop_skip [OF True] using ih [OF Cons.prems] .
    next
      case False
      have "txt_loop L sr m (insert k P, b) rs = txt_loop L sr m (insert k P, b) ?rs'" for b
        using ih [of "insert k P" b] Cons.prems by simp
      then show ?thesis
        unfolding f unfolding r txt_loop_lines [OF False]
        by (cases "txt_lines L sr m a ls") simp_all
    qed
  qed
qed

text \<open>A name in the set that no report bears changes nothing but the set returned.\<close>

lemma geojson_loop_extra_name:
  "n \<notin> fst ` set rs \<Longrightarrow>
   geojson_loop L sr m (insert n P, a) rs
   = (case geojson_loop L sr m (P, a) rs of
        Inl e \<Rightarrow> Inl e
      | Inr (P', a') \<Rightarrow> Inr (insert n P', a'))"
proof (induction rs arbitrary: P a)
  case Nil
  then show ?case by simp
next
  case (Cons r rs)
  obtain k g where r: "r = (k, g)" by (cases r)
  have kn: "k \<noteq> n" and rest: "n \<notin> fst ` set rs"
    using Cons.prems by (auto simp: r)
  note ih = Cons.IH [OF rest]
  consider (skip) "k \<in> P" | (reject) "k \<notin> P" "missing_fields g \<noteq> {}"
    | (rows) "k \<notin> P" "missing_fields g = {}" by blast
  then show ?case
  proof cases
    case skip
    then have skip': "k \<in> insert n P" by simp
    show ?thesis
      unfolding r geojson_loop_skip [OF skip] geojson_loop_skip [OF skip'] using ih [of P a] .
  next
    case reject
    then have 1: "k \<notin> insert n P" using kn by simp
    show ?thesis
      unfolding r geojson_loop_reject [OF reject] geojson_loop_reject [OF 1 reject(2)]
      using ih [of "insert k P" a] by (simp add: insert_commute)
  next
    case rows
    then have 1: "k \<notin> insert n P" using kn by simp
    have "geojson_loop L sr m (insert k (insert n P), b) rs
          = (case geojson_loop L sr m (insert k P, b) rs of
               Inl e \<Rightarrow> Inl e
             | Inr (P', a') \<Rightarrow> Inr (insert n P', a'))" for b
      using ih [of "insert k P" b] by (simp add: insert_commute)
    then show ?thesis
      unfolding r geojson_loop_rows [OF rows] geojson_loop_rows [OF 1 rows(2)]
      by (cases "geojson_rows L sr m (columns g) a (cells g)") simp_all
  qed
qed

lemma txt_loop_extra_name:
  "n \<notin> fst ` set rs \<Longrightarrow>
   txt_loop L sr m (insert n P, a) rs
   = (case txt_loop L sr m (P, a) rs of
        Inl e \<Rightarrow> Inl e
      | Inr (P', a') \<Rightarrow> Inr (insert n P', a'))"
proof (induction rs arbitrary: P a)
  case Nil
  then show ?case by simp
next
  case (Cons r rs)
  obtain k ls where r: "r = (k, ls)" by (cases r)
  have kn: "k \<noteq> n" and rest: "n \<notin> fst ` set rs"
    using Cons.prems by (auto simp: r)
  note ih = Cons.IH [OF rest]
  show ?case
  proof (cases "k \<in> P")
    case True
    then have skip': "k \<in> insert n P" by simp
    show ?thesis
      unfolding r txt_loop_skip [OF True] txt_loop_skip [OF skip'] using ih [of P a] .
  next
    case False
    then have 1: "k \<notin> insert n P" using kn by simp
    have "txt_loop L sr m (insert k (insert n P), b) rs
          = (case txt_loop L sr m (insert k P, b) rs of
               Inl e \<Rightarrow> Inl e
             | Inr (P', a') \<Rightarrow> Inr (insert n P', a'))" for b
      using ih [of "insert k P" b] by (simp add: insert_commute)
    then show ?thesis
      unfolding r txt_loop_lines [OF False] txt_loop_lines [OF 1]
      by (cases "txt_lines L sr m a ls") simp_all
  qed
qed

lemma geojson_loop_append:
  "geojson_loop L sr m (P, a) (xs @ ys)
   = (case geojson_loop L sr m (P, a) xs of
        Inl e \<Rightarrow> Inl e
      | Inr (P', a') \<Rightarrow> geojson_loop L sr m (P', a') ys)"
proof (induction xs arbitrary: P a)
  case Nil
  then show ?case by simp
next
  case (Cons r xs)
  obtain k g where r: "r = (k, g)" by (cases r)
  consider (skip) "k \<in> P" | (reject) "k \<notin> P" "missing_fields g \<noteq> {}"
    | (rows) "k \<notin> P" "missing_fields g = {}" by blast
  then show ?case
  proof cases
    case skip
    show ?thesis
      unfolding r append_Cons geojson_loop_skip [OF skip] using Cons.IH [of P a] .
  next
    case reject
    show ?thesis
      unfolding r append_Cons geojson_loop_reject [OF reject] using Cons.IH [of "insert k P" a] .
  next
    case rows
    show ?thesis
      unfolding r append_Cons geojson_loop_rows [OF rows]
      by (cases "geojson_rows L sr m (columns g) a (cells g)") (simp_all add: Cons.IH)
  qed
qed


text \<open>Normalizing the reports keeps their names, their order and their columns.\<close>

lemma columns_normalize_crs:
  "normalize_crs E L sr gdf = Inr gdf' \<Longrightarrow> columns gdf' = columns gdf"
  by (auto simp: normalize_crs_def frame_to_crs_def split: if_splits option.splits)

lemma missing_fields_normalize_crs:
  "normalize_crs E L sr gdf = Inr gdf' \<Longrightarrow> missing_fields gdf' = missing_fields gdf"
  by (simp add: missing_fields_def columns_normalize_crs)

lemma normalize_reports_Cons:
  "normalize_reports E L sr ((n, g) # rs) = Inr zs \<longleftrightarrow>
   (\<exists>g' rs'. normalize_crs E L sr g = Inr g' \<and> normalize_reports E L sr rs = Inr rs' \<and>
              zs = (n, g') # rs')"
  by (auto split: sum.splits)

lemma normalize_reports_append:
  "normalize_reports E L sr (xs @ ys) = Inr zs \<longleftrightarrow>
   (\<exists>xs' ys'. normalize_reports E L sr xs = Inr xs' \<and> normalize_reports E L sr ys = Inr ys' \<and>
               zs = xs' @ ys')"
proof (induction xs arbitrary: zs)
  case Nil
  show ?case by auto
next
  case (Cons r xs)
  obtain n g where r: "r = (n, g)" by (cases r)
  show ?case
    unfolding r append_Cons normalize_reports_Cons Cons.IH by auto
qed

lemma normalize_reports_names:
  "normalize_reports E L sr rs = Inr rs' \<Longrightarrow> fst ` set rs' = fst ` set rs"
proof (induction rs arbitrary: rs')
  case Nil
  then show ?case by simp
next
  case (Cons r rs)
  obtain n g where r: "r = (n, g)" by (cases r)
  from Cons.prems obtain g' rs1 where "normalize_reports E L sr rs = Inr rs1" "rs' = (n, g') # rs1"
    unfolding r normalize_reports_Cons by blast
  with Cons.IH [of rs1] show ?case by (simp add: r)
qed

lemma normalize_reports_filter:
  "normalize_reports E L sr rs = Inr rs' \<Longrightarrow>
   normalize_reports E L sr (filter (\<lambda>r. fst r \<noteq> k) rs) = Inr (filter (\<lambda>r. fst r \<noteq> k) rs')"
proof (induction rs arbitrary: rs')
  case Nil
  then show ?case by simp
next
  case (Cons r rs)
  obtain n g where r: "r = (n, g)" by (cases r)
  from Cons.prems obtain g' rs1 where g': "normalize_crs E L sr g = Inr g'"
    and rs1: "normalize_reports E L sr rs = Inr rs1" and rs': "rs' = (n, g') # rs1"
    unfolding r normalize_reports_Cons by blast
  from Cons.IH [OF rs1] g' show ?case by (simp add: r rs')
qed

text \<open>
  Claim C10. When \<open>create_pipeline_features\<close> returns, the set of processed reports it
  returns contains the set it was given and the name of every GeoJSON and TXT report of
  the call. A GeoJSON report that is examined (its name is neither in the set given
  nor borne by an earlier report) and rejected for missing required fields is in that
  set, and neither it nor any later report of its name is attempted: the call with
  these reports removed returns the same table, flag and upsert requests, and the same
  set but for that name.
\<close>

theorem processed_reports_complete:
  assumes run: "create_pipeline_features E L geojson_reports txt_reports gdf0 sr coll P0 use_mongodb
                = Inr ((P', G', fa), ups)"
  shows "(case P0 of None \<Rightarrow> {} | Some s \<Rightarrow> s) \<subseteq> P' \<and>
         fst ` set geojson_reports \<subseteq> P' \<and> fst ` set txt_reports \<subseteq> P' \<and>
         (\<forall>xs n g ys.
            geojson_reports = xs @ (n, g) # ys \<and> n \<notin> (case P0 of None \<Rightarrow> {} | Some s \<Rightarrow> s) \<and>
            n \<notin> fst ` set xs \<and> missing_fields g \<noteq> {}
            \<longrightarrow> n \<in> P' \<and>
                create_pipeline_features E L (xs @ filter (\<lambda>r. fst r \<noteq> n) ys)
                    (filter (\<lambda>r. fst r \<noteq> n) txt_reports) gdf0 sr coll P0 use_mongodb
                  = Inr ((P' - {n}, G', fa), ups))"
proof -
  define P where "P = (case P0 of None \<Rightarrow> {} | Some s \<Rightarrow> s)"
  define m where "m = (use_mongodb \<and> coll \<noteq> None)"
  define a0 :: "'a frame \<Rightarrow> 'a acc"
    where "a0 = (\<lambda>gl. \<lparr>lines_gdf = gl, pipelines = {}, added = False, upserts = []\<rparr>)"
  have unfold: "create_pipeline_features E L gr tr gdf0 sr coll P0 use_mongodb
      = (case normalize_crs E L sr gdf0 of
           Inl e \<Rightarrow> Inl e
         | Inr gl \<Rightarrow>
             (case normalize_reports E L sr gr of
                Inl e \<Rightarrow> Inl e
              | Inr ngr \<Rightarrow>
                  (case geojson_loop L sr m (P, a0 gl) ngr of
                     Inl e \<Rightarrow> Inl e
                   | Inr (Q, a) \<Rightarrow>
                       (case txt_loop L sr m (Q, a) tr of
                          Inl e \<Rightarrow> Inl e
                        | Inr (Q', a') \<Rightarrow> Inr ((Q', lines_gdf a', added a'), upserts a')))))"
    for gr tr
    unfolding create_pipeline_features_def Let_def P_def m_def a0_def ..
  obtain gl nrs P1 a1 a2 where n0: "normalize_crs E L sr gdf0 = Inr gl"
    and nr: "normalize_reports E L sr geojson_reports = Inr nrs"
    and g: "geojson_loop L sr m (P, a0 gl) nrs = Inr (P1, a1)"
    and t: "txt_loop L sr m (P1, a1) txt_reports = Inr (P', a2)"
    and res: "G' = lines_gdf a2" "fa = added a2" "ups = upserts a2"
    using run unfolding unfold by (auto split: sum.splits)
  have P1: "P1 = P \<union> fst ` set geojson_reports"
    using geojson_loop_processed [OF g] normalize_reports_names [OF nr] by simp
  have P': "P' = P1 \<union> fst ` set txt_reports"
    using txt_loop_processed [OF t] .
  have rejected: "n \<in> P' \<and>
      create_pipeline_features E L (xs @ filter (\<lambda>r. fst r \<noteq> n) ys)
          (filter (\<lambda>r. fst r \<noteq> n) txt_reports) gdf0 sr coll P0 use_mongodb
        = Inr ((P' - {n}, G', fa), ups)"
    if split: "geojson_reports = xs @ (n, g) # ys" and nP: "n \<notin> P" and nxs: "n \<notin> fst ` set xs"
      and mf: "missing_fields g \<noteq> {}" for xs n g ys
  proof -
    let ?ys = "filter (\<lambda>r. fst r \<noteq> n) ys"
    let ?txt = "filter (\<lambda>r. fst r \<noteq> n) txt_reports"
    obtain nxs g' nys where xs: "normalize_reports E L sr xs = Inr nxs"
      and g': "normalize_crs E L sr g = Inr g'"
      and ys: "normalize_reports E L sr ys = Inr nys"
      and ng: "nrs = nxs @ (n, g') # nys"
      using nr unfolding split normalize_reports_append normalize_reports_Cons by blast
    let ?nys = "filter (\<lambda>r. fst r \<noteq> n) nys"
    have nr': "normalize_reports E L sr (xs @ ?ys) = Inr (nxs @ ?nys)"
      using xs normalize_reports_filter [OF ys] unfolding normalize_reports_append by blast
    obtain Px ax where x: "geojson_loop L sr m (P, a0 gl) nxs = Inr (Px, ax)"
      and y: "geojson_loop L sr m (Px, ax) ((n, g') # nys) = Inr (P1, a1)"
      using g unfolding ng geojson_loop_append by (auto split: sum.splits)
    have Px: "Px = P \<union> fst ` set xs"
      using geojson_loop_processed [OF x] normalize_reports_names [OF xs] by simp
    then have nPx: "n \<notin> Px"
      using nP nxs by simp
    have mf': "missing_fields g' \<noteq> {}"
      using mf missing_fields_normalize_crs [OF g'] by simp
    have "geojson_loop L sr m (insert n Px, ax) nys = Inr (P1, a1)"
      using y unfolding geojson_loop_reject [OF nPx mf'] .
    then have "geojson_loop L sr m (insert n Px, ax) ?nys = Inr (P1, a1)"
      using geojson_loop_skips [of n "insert n Px" L sr m ax nys] by simp
    moreover have "n \<notin> fst ` set ?nys"
      by auto
    ultimately obtain Q1 where q: "geojson_loop L sr m (Px, ax) ?nys = Inr (Q1, a1)"
      and P1Q: "P1 = insert n Q1"
      using geojson_loop_extra_name [of n ?nys L sr m Px ax] by (auto split: sum.splits)
    have g2: "geojson_loop L sr m (P, a0 gl) (nxs @ ?nys) = Inr (Q1, a1)"
      using x q by (simp add: geojson_loop_append)
    have "txt_loop L sr m (insert n Q1, a1) ?txt = Inr (P', a2)"
      using t txt_loop_skips [of n "insert n Q1" L sr m a1 txt_reports] by (simp add: P1Q)
    moreover have "n \<notin> fst ` set ?txt"
      by auto
    ultimately obtain Q' where t': "txt_loop L sr m (Q1, a1) ?txt = Inr (Q', a2)"
      and P'Q: "P' = insert n Q'"
      using txt_loop_extra_name [of n ?txt L sr m Q1 a1] by (auto split: sum.splits)
    have "Q1 = Px \<union> fst ` set ?nys"
      using geojson_loop_processed [OF q] .
    moreover have "Q' = Q1 \<union> fst ` set ?txt"
      using txt_loop_processed [OF t'] .
    ultimately have "n \<notin> Q'"
      using nPx by auto
    then have "P' - {n} = Q'"
      using P'Q by auto
    then show ?thesis
      using n0 nr' g2 t' res P'Q unfolding unfold by simp
  qed
  show ?thesis
    using P1 P' rejected unfolding P_def by blast
qed

lemmas loader_defs =
  latin1_lower_def latin1_lower_char_def char_of_def bit_Suc_0_iff is_space_def str_split_def row_get_def isna_def
  frame_empty_def dropna_all_def frame_to_crs_def concat_rows_def SCHEMA_FIELDS_def
  robust_date_parse_def make_feature_def align_feature_dtypes_def upsert_mongodb_feature_def
  add_feature_def geojson_row_def
  missing_fields_def insert_Diff_if txt_line_def normalize_crs_def create_pipeline_features_def
  Let_def

lemmas loader_ex_defs = toy_lib_def ex_lines_table_def ex_bad_report_def ex_good_report_def ex_txt_def

theorem processed_reports_complete_witness:
  "create_pipeline_features toy_engine toy_lib
      [(''bad.geojson'', ex_bad_report), (''good.geojson'', ex_good_report)]
      [(''lines.txt'', ex_txt)] ex_lines_table ''EPSG:4326'' (None :: unit option) None True
     = Inr (({''lines.txt'', ''good.geojson'', ''bad.geojson''}, ex_lines_result, True), []) \<and>
   missing_fields ex_bad_report \<noteq> {} \<and>
   create_pipeline_features toy_engine toy_lib
      [(''good.geojson'', ex_good_report)]
      [(''lines.txt'', ex_txt)] ex_lines_table ''EPSG:4326'' (None :: unit option) None True
     = Inr (({''lines.txt'', ''good.geojson''}, ex_lines_result, True), [])"
proof -
  let ?good = "(''good.geojson'', ex_good_report)"
  have run: "create_pipeline_features toy_engine toy_lib
      [(''bad.geojson'', ex_bad_report), ?good]
      [(''lines.txt'', ex_txt)] ex_lines_table ''EPSG:4326'' (None :: unit option) None True
     = Inr (({''lines.txt'', ''good.geojson'', ''bad.geojson''}, ex_lines_result, True), [])"
    by (simp add: loader_defs loader_ex_defs ex_lines_result_def toy_engine_def)
  have mf: "missing_fields ex_bad_report \<noteq> {}"
    by (simp add: missing_fields_def SCHEMA_FIELDS_def ex_bad_report_def insert_Diff_if)
  have "\<forall>xs n g ys.
          [(''bad.geojson'', ex_bad_report), ?good] = xs @ (n, g) # ys \<and>
          n \<notin> (case None of None \<Rightarrow> {} | Some s \<Rightarrow> s) \<and> n \<notin> fst ` set xs \<and> missing_fields g \<noteq> {}
          \<longrightarrow> n \<in> {''lines.txt'', ''good.geojson'', ''bad.geojson''} \<and>
              create_pipeline_features toy_engine toy_lib (xs @ filter (\<lambda>r. fst r \<noteq> n) ys)
                  (filter (\<lambda>r. fst r \<noteq> n) [(''lines.txt'', ex_txt)]) ex_lines_table ''EPSG:4326''
                  (None :: unit option) None True
                = Inr (({''lines.txt'', ''good.geojson'', ''bad.geojson''} - {n}, ex_lines_result, True), [])"
    using processed_reports_complete [OF run] by blast
  from this [rule_format, of "[]" "''bad.geojson''" ex_bad_report "[?good]"] mf
  have "create_pipeline_features toy_engine toy_lib ([] @ filter (\<lambda>r. fst r \<noteq> ''bad.geojson'') [?good])
          (filter (\<lambda>r. fst r \<noteq> ''bad.geojson'') [(''lines.txt'', ex_txt)]) ex_lines_table ''EPSG:4326''
          (None :: unit option) None True
        = Inr (({''lines.txt'', ''good.geojson'', ''bad.geojson''} - {''bad.geojson''}, ex_lines_result, True), [])"
    by simp
  then have "create_pipeline_features toy_engine toy_lib [?good] [(''lines.txt'', ex_txt)]
          ex_lines_table ''EPSG:4326'' (None :: unit option) None True
        = Inr (({''lines.txt'', ''good.geojson''}, ex_lines_result, True), [])"
    by (simp add: insert_Diff_if)
  then show ?thesis
    using run mf by simp
qed


end
